theory Spec2Isabelle
  imports Main "HOL-Library.Word" "HOL-Library.AList"
begin

section \<open>JavaScript values\<close>

text \<open>
  The extension is TypeScript; at run time its data are plain JavaScript values. A number
  is modelled as an integer or \<open>NaN\<close> (tab sizes are integral; fractions, infinities and
  magnitudes beyond the exactly representable integers are outside the model). Strings of
  configuration values are lists of 8-bit characters read as ISO-8859-1 code points.
  \<open>JObject\<close> is an opaque object, carrying only its rendering as a string.
\<close>

datatype jsnum = NaN | Fin int

datatype jsval =
    JUndefined
  | JNull
  | JBool bool
  | JNum jsnum
  | JStr string
  | JObject string

text \<open>ToBoolean, as used by \<open>!x\<close>, \<open>x || y\<close> and \<open>x ? a : b\<close>.\<close>

fun truthy :: "jsval \<Rightarrow> bool" where
  "truthy JUndefined = False"
| "truthy JNull = False"
| "truthy (JBool b) = b"
| "truthy (JNum NaN) = False"
| "truthy (JNum (Fin n)) = (n \<noteq> 0)"
| "truthy (JStr s) = (s \<noteq> [])"
| "truthy (JObject s) = True"

text \<open>\<open>a || b\<close> yields the left operand when it is truthy, the right one otherwise.\<close>

definition jsOr :: "jsval \<Rightarrow> jsval \<Rightarrow> jsval" where
  "jsOr a b = (if truthy a then a else b)"

subsection \<open>Numbers to strings and back\<close>

definition digitChar :: "nat \<Rightarrow> char" where
  "digitChar d = ''0123456789'' ! d"

fun showNat :: "nat \<Rightarrow> string" where
  "showNat n = (if n < 10 then [digitChar n] else showNat (n div 10) @ [digitChar (n mod 10)])"

declare showNat.simps [simp del]

definition showInt :: "int \<Rightarrow> string" where
  "showInt i = (if i < 0 then CHR ''-'' # showNat (nat (- i)) else showNat (nat i))"

text \<open>ToString, as applied by \<open>x + ''\<close> and by a template literal.\<close>

fun toString :: "jsval \<Rightarrow> string" where
  "toString JUndefined = ''undefined''"
| "toString JNull = ''null''"
| "toString (JBool b) = (if b then ''true'' else ''false'')"
| "toString (JNum NaN) = ''NaN''"
| "toString (JNum (Fin n)) = showInt n"
| "toString (JStr s) = s"
| "toString (JObject s) = s"

definition isDigit :: "char \<Rightarrow> bool" where
  "isDigit c = (c \<in> set ''0123456789'')"

definition digitVal :: "char \<Rightarrow> nat" where
  "digitVal c = length (takeWhile (\<lambda>d. d \<noteq> c) ''0123456789'')"

text \<open>White space and line terminators that \<open>parseInt\<close> skips, within ISO-8859-1.\<close>

definition isStrWhiteSpace :: "char \<Rightarrow> bool" where
  "isStrWhiteSpace c =
     (c \<in> {CHR 0x09, CHR 0x0A, CHR 0x0B, CHR 0x0C, CHR 0x0D, CHR 0x20, CHR 0xA0})"

definition digitsValue :: "string \<Rightarrow> nat" where
  "digitsValue ds = foldl (\<lambda>acc c. 10 * acc + digitVal c) 0 ds"

text \<open>
  \<open>parseInt(s, 10)\<close>: skip leading white space, read an optional sign, then the longest
  prefix of decimal digits; with no digit the result is \<open>NaN\<close>.
\<close>

definition parseInt10 :: "string \<Rightarrow> jsnum" where
  "parseInt10 s =
     (let s1 = dropWhile isStrWhiteSpace s;
          neg = (s1 \<noteq> [] \<and> hd s1 = CHR ''-'');
          s2 = (if s1 \<noteq> [] \<and> (hd s1 = CHR ''-'' \<or> hd s1 = CHR ''+'') then tl s1 else s1);
          z = takeWhile isDigit s2
      in if z = [] then NaN
         else Fin (if neg then - int (digitsValue z) else int (digitsValue z)))"

section \<open>Configuration objects\<close>

text \<open>
  \<open>editorconfig.knownProps\<close> is an object whose properties are all optional. It is an
  association list from property names to values: \<open>getProp\<close> reads a property (an absent one
  reads as \<open>undefined\<close>), \<open>setProp\<close> assigns one, \<open>hasOwnProperty\<close> tests presence.
\<close>

type_synonym knownProps = "(string \<times> jsval) list"

definition getProp :: "knownProps \<Rightarrow> string \<Rightarrow> jsval" where
  "getProp obj k = (case map_of obj k of None \<Rightarrow> JUndefined | Some v \<Rightarrow> v)"

definition setProp :: "knownProps \<Rightarrow> string \<Rightarrow> jsval \<Rightarrow> knownProps" where
  "setProp obj k v = AList.update k v obj"

definition hasOwnProperty :: "knownProps \<Rightarrow> string \<Rightarrow> bool" where
  "hasOwnProperty obj k = (map_of obj k \<noteq> None)"

record editorSettings =
  tabSize :: jsval
  insertSpaces :: jsval

section \<open>Utils: translating between the two vocabularies\<close>

definition fromEditorConfig :: "knownProps \<Rightarrow> editorSettings \<Rightarrow> editorSettings" where
  "fromEditorConfig config defaults =
     \<lparr> tabSize = jsOr (jsOr (getProp config ''tab_width'') (getProp config ''indent_size''))
                  (tabSize defaults),
       insertSpaces = (if truthy (getProp config ''indent_style'')
                       then JBool (getProp config ''indent_style'' \<noteq> JStr ''tab'')
                       else insertSpaces defaults) \<rparr>"

definition resolveTabSize :: "jsval \<Rightarrow> jsval" where
  "resolveTabSize ts =
     (if ts = JStr ''auto'' then JNum (Fin 4) else JNum (parseInt10 (toString ts)))"

text \<open>
  The \<open>switch\<close> compares with strict equality, so only the boolean \<open>true\<close>, the boolean
  \<open>false\<close> and the string \<open>auto\<close> select a branch; there is no default branch.
\<close>

definition toEditorConfig :: "editorSettings \<Rightarrow> knownProps" where
  "toEditorConfig options =
     (if insertSpaces options = JBool True then
        setProp (setProp [] ''indent_style'' (JStr ''space''))
          ''indent_size'' (resolveTabSize (tabSize options))
      else if insertSpaces options = JBool False \<or> insertSpaces options = JStr ''auto'' then
        setProp (setProp [] ''indent_style'' (JStr ''tab''))
          ''tab_width'' (resolveTabSize (tabSize options))
      else [])"

section \<open>Documents and edits\<close>

text \<open>
  The text of a document is a sequence of UTF-16 code units, held line by line without
  the line terminators, as the host's \<open>lineAt\<close> presents it.
\<close>

type_synonym codeUnit = "16 word"
type_synonym jstext = "codeUnit list"

definition units :: "string \<Rightarrow> jstext" where
  "units s = map (\<lambda>c. of_nat (of_char c)) s"

record textDocument =
  fileName :: string
  isUntitled :: bool
  lines :: "jstext list"

record textLine =
  lineNumber :: nat
  lineText :: jstext

definition lineCount :: "textDocument \<Rightarrow> nat" where
  "lineCount doc = length (lines doc)"

definition lineAt :: "textDocument \<Rightarrow> nat \<Rightarrow> textLine" where
  "lineAt doc i = \<lparr> lineNumber = i, lineText = lines doc ! i \<rparr>"

type_synonym position = "nat \<times> nat"

text \<open>
  What an edit callback asks of the host: \<open>edit.delete(range)\<close> or
  \<open>edit.insert(pos, value)\<close>. The inserted value is kept as the JavaScript value that
  the code passes.
\<close>

datatype editOp = DeleteRange position position | InsertAt position jsval

datatype error = TypeError | ResolutionFailed

section \<open>Trimming trailing white space\<close>

text \<open>
  The character class \<open>[\s\uFEFF\xA0]\<close>: the white space and line terminator code
  points of ECMAScript (tab, vertical tab, form feed, space, no-break space, the byte
  order mark, the space separators of Unicode, line feed, carriage return, line and
  paragraph separator).
\<close>

definition isTrailingSpace :: "codeUnit \<Rightarrow> bool" where
  "isTrailingSpace c =
     (c \<in> {0x0009, 0x000A, 0x000B, 0x000C, 0x000D, 0x0020, 0x00A0, 0x1680,
            0x2028, 0x2029, 0x202F, 0x205F, 0x3000, 0xFEFF}
      \<or> (0x2000 \<le> c \<and> c \<le> 0x200A))"

text \<open>
  \<open>input.replace(/[\s\uFEFF\xA0]+$/g, '')\<close>. The search tries each start position from
  the left; the pattern matches at a position when everything from there to the end of
  the input belongs to the class (and there is at least one character). The first match
  reaches the end of the input, so it is the only one, and it is replaced by nothing.
\<close>

fun trimTrailingWhitespace :: "jstext \<Rightarrow> jstext" where
  "trimTrailingWhitespace [] = []"
| "trimTrailingWhitespace (c # cs) =
     (if list_all isTrailingSpace (c # cs) then [] else c # trimTrailingWhitespace cs)"

definition trimLineTrailingWhitespace :: "textLine \<Rightarrow> editOp option" where
  "trimLineTrailingWhitespace line =
     (let trimmedLine = trimTrailingWhitespace (lineText line)
      in if trimmedLine = lineText line then None
         else Some (DeleteRange (lineNumber line, length trimmedLine)
                                (lineNumber line, length (lineText line))))"

text \<open>The \<open>for\<close> loop that collects one operation per line.\<close>

function trimmingLoop :: "textDocument \<Rightarrow> nat \<Rightarrow> editOp option list \<Rightarrow> editOp option list" where
  "trimmingLoop doc i ops =
     (if i < lineCount doc
      then trimmingLoop doc (Suc i) (ops @ [trimLineTrailingWhitespace (lineAt doc i)])
      else ops)"
  by pat_completeness auto
termination
  by (relation "measure (\<lambda>(doc, i, ops). lineCount doc - i)") auto

declare trimmingLoop.simps [simp del]

text \<open>
  The first argument is the host setting \<open>files.trimTrailingWhitespace\<close>. The result
  lists, per line, the edit issued for it (\<open>None\<close> for a line left alone).
\<close>

definition trimTrailingWhitespaceTransform ::
    "jsval \<Rightarrow> knownProps \<Rightarrow> textDocument \<Rightarrow> editOp option list" where
  "trimTrailingWhitespaceTransform editorTrimsWhitespace editorconfig textDocument =
     (if truthy editorTrimsWhitespace \<or> \<not> truthy (getProp editorconfig ''trim_trailing_whitespace'')
      then []
      else trimmingLoop textDocument 0 [])"

section \<open>Inserting the final newline\<close>

definition upperChars :: string where
  "upperChars = ''ABCDEFGHIJKLMNOPQRSTUVWXYZ'' @
     [CHR 0xC0, CHR 0xC1, CHR 0xC2, CHR 0xC3, CHR 0xC4, CHR 0xC5, CHR 0xC6, CHR 0xC7,
      CHR 0xC8, CHR 0xC9, CHR 0xCA, CHR 0xCB, CHR 0xCC, CHR 0xCD, CHR 0xCE, CHR 0xCF,
      CHR 0xD0, CHR 0xD1, CHR 0xD2, CHR 0xD3, CHR 0xD4, CHR 0xD5, CHR 0xD6,
      CHR 0xD8, CHR 0xD9, CHR 0xDA, CHR 0xDB, CHR 0xDC, CHR 0xDD, CHR 0xDE]"

definition lowerChars :: string where
  "lowerChars = ''abcdefghijklmnopqrstuvwxyz'' @
     [CHR 0xE0, CHR 0xE1, CHR 0xE2, CHR 0xE3, CHR 0xE4, CHR 0xE5, CHR 0xE6, CHR 0xE7,
      CHR 0xE8, CHR 0xE9, CHR 0xEA, CHR 0xEB, CHR 0xEC, CHR 0xED, CHR 0xEE, CHR 0xEF,
      CHR 0xF0, CHR 0xF1, CHR 0xF2, CHR 0xF3, CHR 0xF4, CHR 0xF5, CHR 0xF6,
      CHR 0xF8, CHR 0xF9, CHR 0xFA, CHR 0xFB, CHR 0xFC, CHR 0xFD, CHR 0xFE]"

definition toLowerCase :: "string \<Rightarrow> string" where
  "toLowerCase s =
     map (\<lambda>c. case map_of (zip upperChars lowerChars) c of None \<Rightarrow> c | Some l \<Rightarrow> l) s"

definition lineEndings :: knownProps where
  "lineEndings = [(''cr'', JStr [CHR 0x0D]), (''crlf'', JStr [CHR 0x0D, CHR 0x0A])]"

text \<open>
  \<open>obj[key]\<close> on an object literal: an own property first, then what every object
  inherits from \<open>Object.prototype\<close>.
\<close>

definition inheritedMethods :: "string list" where
  "inheritedMethods =
     [''constructor'', ''hasOwnProperty'', ''isPrototypeOf'', ''propertyIsEnumerable'',
      ''toLocaleString'', ''toString'', ''valueOf'', ''__defineGetter__'',
      ''__defineSetter__'', ''__lookupGetter__'', ''__lookupSetter__'']"

definition literalLookup :: "knownProps \<Rightarrow> string \<Rightarrow> jsval" where
  "literalLookup obj k =
     (case map_of obj k of
        Some v \<Rightarrow> v
      | None \<Rightarrow>
          if k \<in> set inheritedMethods then JObject (''function '' @ k @ ''() { [native code] }'')
          else if k = ''__proto__'' then JObject ''[object Object]''
          else JUndefined)"

text \<open>
  \<open>editorconfig.end_of_line.toLowerCase()\<close> is a method call on the property's value:
  only a string has that method, anything else raises a \<open>TypeError\<close>.
\<close>

definition newline :: "knownProps \<Rightarrow> error + jsval" where
  "newline editorconfig =
     (case getProp editorconfig ''end_of_line'' of
        JStr s \<Rightarrow> Inr (jsOr (literalLookup lineEndings (toLowerCase s)) (JStr [CHR 0x0A]))
      | _ \<Rightarrow> Inl TypeError)"

definition insertFinalNewlineTransform ::
    "knownProps \<Rightarrow> textDocument \<Rightarrow> error + editOp option" where
  "insertFinalNewlineTransform editorconfig textDocument =
     (if \<not> truthy (getProp editorconfig ''insert_final_newline'') \<or> lineCount textDocument = 0
      then Inr None
      else
        let lastLine = lineAt textDocument (lineCount textDocument - 1);
            lastLineLength = length (lineText lastLine)
        in if lastLineLength < 1 then Inr None
           else (case newline editorconfig of
                   Inl e \<Rightarrow> Inl e
                 | Inr nl \<Rightarrow> Inr (Some (InsertAt (lineNumber lastLine, lastLineLength) nl))))"

section \<open>The host's edit primitive\<close>

text \<open>
  The editor is not part of the extension. What one edit does to the text: a deletion
  removes the addressed span, an insertion of a string splices it in and the host splits
  the result at line terminators again; a request the host cannot carry out (a position
  outside the document, a value that is not a string) changes nothing.

  Whether an edit is carried out at all: every call of \<open>editor.edit\<close> makes an edit
  builder bound to the version the document has at that moment and runs the callback at
  once; the edit itself is carried out later. The host carries it out only if the
  document still has that version, and an edit carried out gives the document a new
  version. Otherwise the edit is refused and its promise yields \<open>false\<close>.
\<close>

fun splitLines :: "jstext \<Rightarrow> jstext list" where
  "splitLines [] = [[]]"
| "splitLines (c # cs) =
     (if c = 0x0D then
        (case cs of
           [] \<Rightarrow> [[], []]
         | d # ds \<Rightarrow> if d = 0x0A then [] # splitLines ds else [] # splitLines cs)
      else if c = 0x0A then [] # splitLines cs
      else (case splitLines cs of [] \<Rightarrow> [[c]] | l # ls \<Rightarrow> (c # l) # ls))"

fun applyEdit :: "editOp \<Rightarrow> jstext list \<Rightarrow> jstext list" where
  "applyEdit (DeleteRange (l1, c1) (l2, c2)) ls =
     (if l1 \<le> l2 \<and> l2 < length ls
      then take l1 ls @ [take c1 (ls ! l1) @ drop c2 (ls ! l2)] @ drop (Suc l2) ls
      else ls)"
| "applyEdit (InsertAt (l, c) (JStr s)) ls =
     (if l < length ls
      then take l ls @ splitLines (take c (ls ! l) @ units s @ drop c (ls ! l)) @ drop (Suc l) ls
      else ls)"
| "applyEdit (InsertAt (l, c) v) ls = ls"

type_synonym hostDocument = "nat \<times> jstext list"

definition tryApplyEdit :: "nat \<Rightarrow> editOp \<Rightarrow> hostDocument \<Rightarrow> bool \<times> hostDocument" where
  "tryApplyEdit builtAt e d =
     (if fst d = builtAt then (True, (Suc (fst d), applyEdit e (snd d))) else (False, d))"

text \<open>
  The edits of one pass: the calls of \<open>editor.edit\<close> are made one after the other
  without waiting, so every builder is made at the same version \<open>builtAt\<close>; the host
  then takes the edits in the order issued. The result lists the edits carried out.
\<close>

fun applyIssued :: "nat \<Rightarrow> editOp option list \<Rightarrow> hostDocument \<Rightarrow> editOp list \<times> hostDocument" where
  "applyIssued builtAt [] d = ([], d)"
| "applyIssued builtAt (None # ops) d = applyIssued builtAt ops d"
| "applyIssued builtAt (Some e # ops) d =
     (case tryApplyEdit builtAt e d of
        (ok, d1) \<Rightarrow>
          (case applyIssued builtAt ops d1 of
             (applied, d2) \<Rightarrow> (if ok then e # applied else applied, d2)))"

text \<open>Versions are counted from the start of the pass.\<close>

definition applyEdits :: "editOp option list \<Rightarrow> jstext list \<Rightarrow> jstext list" where
  "applyEdits ops ls = snd (snd (applyIssued 0 ops (0, ls)))"

definition appliedEdits :: "editOp option list \<Rightarrow> jstext list \<Rightarrow> editOp list" where
  "appliedEdits ops ls = fst (applyIssued 0 ops (0, ls))"

section \<open>The document watcher\<close>

text \<open>
  Documents and editors are objects of the host that the extension holds by reference.
  A document is named by its position in \<open>workspace.textDocuments\<close>, an editor by its
  position in \<open>window.visibleTextEditors\<close>; a reference that names nothing reads as
  absent. The watcher's own fields are \<open>documentToConfigMap\<close> and \<open>defaultSettings\<close>
  (\<open>_defaults\<close> in the source).

  \<open>trace\<close> is not part of the program: it records, in order, the steps whose order the
  specification speaks about.
\<close>

record textEditor =
  document :: nat
  options :: editorSettings

datatype event =
    MapCleared
  | ParseRequested string
  | ParseSettled string bool
  | TransformsStarted nat
  | EditApplied nat editOp
  | DocumentSaved nat

record world =
  documentToConfigMap :: "string \<rightharpoonup> knownProps"
  defaultSettings :: editorSettings
  textDocuments :: "textDocument list"
  visibleTextEditors :: "textEditor list"
  activeTextEditor :: "nat option"
  filesTrimTrailingWhitespace :: jsval
  statusBarMessage :: "string option"
  trace :: "event list"

text \<open>The steps that belong to the transformations run on save.\<close>

fun isTransformEvent :: "event \<Rightarrow> bool" where
  "isTransformEvent (TransformsStarted h) = True"
| "isTransformEvent (EditApplied h e) = True"
| "isTransformEvent (DocumentSaved h) = True"
| "isTransformEvent e = False"

definition emit :: "event \<Rightarrow> world \<Rightarrow> world" where
  "emit e w = w\<lparr> trace := trace w @ [e] \<rparr>"

definition documentOf :: "world \<Rightarrow> nat \<Rightarrow> textDocument option" where
  "documentOf w h = (if h < length (textDocuments w) then Some (textDocuments w ! h) else None)"

definition activeEditor :: "world \<Rightarrow> (nat \<times> textEditor) option" where
  "activeEditor w =
     (case activeTextEditor w of
        None \<Rightarrow> None
      | Some i \<Rightarrow> if i < length (visibleTextEditors w)
                  then Some (i, visibleTextEditors w ! i) else None)"

definition getSettingsForDocument :: "world \<Rightarrow> textDocument \<Rightarrow> knownProps option" where
  "getSettingsForDocument w doc = documentToConfigMap w (fileName doc)"

definition getDefaultSettings :: "world \<Rightarrow> editorSettings" where
  "getDefaultSettings w = defaultSettings w"

definition applyEditorConfigToTextEditor :: "world \<Rightarrow> world" where
  "applyEditorConfigToTextEditor w =
     (case activeEditor w of
        None \<Rightarrow> w
      | Some (i, textEditor) \<Rightarrow>
          (case documentOf w (document textEditor) of
             None \<Rightarrow> w
           | Some doc \<Rightarrow>
               (case getSettingsForDocument w doc of
                  None \<Rightarrow> w
                | Some editorconfig \<Rightarrow>
                    let newOptions = fromEditorConfig editorconfig (getDefaultSettings w);
                        spacesOrTabs =
                          (if insertSpaces newOptions = JStr ''auto'' then ''auto''
                           else if truthy (insertSpaces newOptions) then ''Spaces'' else ''Tabs'')
                    in w\<lparr> statusBarMessage :=
                            Some (''EditorConfig: '' @ spacesOrTabs @ '': '' @
                                  toString (tabSize newOptions)),
                          visibleTextEditors :=
                            (visibleTextEditors w)[i := textEditor\<lparr> options := newOptions \<rparr>] \<rparr>)))"

definition findEditor :: "world \<Rightarrow> nat \<Rightarrow> textEditor option" where
  "findEditor w h = find (\<lambda>editor. document editor = h) (visibleTextEditors w)"

definition performEdits :: "nat \<Rightarrow> editOp option list \<Rightarrow> world \<Rightarrow> world" where
  "performEdits h ops w =
     (case documentOf w h of
        None \<Rightarrow> w
      | Some doc \<Rightarrow>
          foldl (\<lambda>w' e. emit (EditApplied h e) w')
            (w\<lparr> textDocuments :=
                  (textDocuments w)[h := doc\<lparr> lines := applyEdits ops (lines doc) \<rparr>] \<rparr>)
            (appliedEdits ops (lines doc)))"

text \<open>
  The chain \<open>trim.then(insert).then(save)\<close>: each step starts when the one before has
  completed, and an exception in a step rejects the chain, so nothing after it runs.
\<close>

definition applyOnSaveTransformations :: "world \<Rightarrow> nat \<Rightarrow> world" where
  "applyOnSaveTransformations w h =
     (case documentOf w h of
        None \<Rightarrow> w
      | Some textDocument \<Rightarrow>
          (case getSettingsForDocument w textDocument of
             None \<Rightarrow> w
           | Some editorconfig \<Rightarrow>
               (case findEditor w h of
                  None \<Rightarrow> w
                | Some editor \<Rightarrow>
                    let w1 = emit (TransformsStarted h) w;
                        w2 = performEdits h
                               (trimTrailingWhitespaceTransform (filesTrimTrailingWhitespace w1)
                                  editorconfig textDocument) w1
                    in (case documentOf w2 h of
                          None \<Rightarrow> w2
                        | Some trimmed \<Rightarrow>
                            (case insertFinalNewlineTransform editorconfig trimmed of
                               Inl e \<Rightarrow> w2
                             | Inr ins \<Rightarrow> emit (DocumentSaved h) (performEdits h [ins] w2))))))"

text \<open>
  \<open>_onDidOpenDocument\<close> in two parts. The first runs when the function is called and
  either is done at once or asks the external resolver for the path. The second,
  \<open>onParsed\<close>, is the callback that runs when the resolver has answered with a
  configuration; when the resolver fails the callback does not run.
\<close>

datatype resolution = Done | Awaiting string

definition normalizeIndentSize :: "knownProps \<Rightarrow> knownProps" where
  "normalizeIndentSize config =
     (if getProp config ''indent_size'' = JStr ''tab''
      then setProp config ''indent_size'' (getProp config ''tab_width'')
      else config)"

definition onDidOpenDocument :: "world \<Rightarrow> textDocument \<Rightarrow> resolution \<times> world" where
  "onDidOpenDocument w doc =
     (if isUntitled doc then (Done, w)
      else if documentToConfigMap w (fileName doc) \<noteq> None
           then (Done, applyEditorConfigToTextEditor w)
           else (Awaiting (fileName doc), emit (ParseRequested (fileName doc)) w))"

definition onParsed :: "world \<Rightarrow> string \<Rightarrow> knownProps \<Rightarrow> world" where
  "onParsed w path config =
     applyEditorConfigToTextEditor
       (w\<lparr> documentToConfigMap := (documentToConfigMap w)(path \<mapsto> normalizeIndentSize config) \<rparr>)"

text \<open>
  The external resolver \<open>editorconfig.parse\<close> is a parameter: for a path it answers with
  a configuration or fails. \<open>settle\<close> is the moment a pending request is answered; its
  boolean tells whether the promise of \<open>_onDidOpenDocument\<close> was fulfilled.
\<close>

type_synonym resolver = "string \<Rightarrow> error + knownProps"

definition settle :: "resolver \<Rightarrow> world \<Rightarrow> string \<Rightarrow> bool \<times> world" where
  "settle parse w path =
     (case parse path of
        Inl e \<Rightarrow> (False, emit (ParseSettled path False) w)
      | Inr config \<Rightarrow> (True, emit (ParseSettled path True) (onParsed w path config)))"

fun beginAll :: "world \<Rightarrow> textDocument list \<Rightarrow> resolution list \<times> world" where
  "beginAll w [] = ([], w)"
| "beginAll w (d # ds) =
     (case onDidOpenDocument w d of
        (r, w1) \<Rightarrow> (case beginAll w1 ds of (rs, w2) \<Rightarrow> (r # rs, w2)))"

fun settleAll :: "resolver \<Rightarrow> world \<Rightarrow> string list \<Rightarrow> bool list \<times> world" where
  "settleAll parse w [] = ([], w)"
| "settleAll parse w (p # ps) =
     (case settle parse w p of
        (ok, w1) \<Rightarrow> (case settleAll parse w1 ps of (oks, w2) \<Rightarrow> (ok # oks, w2)))"

fun awaited :: "resolution list \<Rightarrow> string list" where
  "awaited [] = []"
| "awaited (Done # rs) = awaited rs"
| "awaited (Awaiting p # rs) = p # awaited rs"

text \<open>
  \<open>_rebuildConfigMap\<close>: the map is emptied and \<open>_onDidOpenDocument\<close> is called for every
  open document, all in one synchronous step; the answers of the resolver arrive later,
  in an order the program does not control, given here by \<open>sched\<close>. The boolean is the
  outcome of \<open>Promise.all\<close>: fulfilled when every request was.
\<close>

definition rebuildConfigMap ::
    "resolver \<Rightarrow> (string list \<Rightarrow> string list) \<Rightarrow> world \<Rightarrow> bool \<times> world" where
  "rebuildConfigMap parse sched w =
     (let w0 = emit MapCleared (w\<lparr> documentToConfigMap := Map.empty \<rparr>)
      in case beginAll w0 (textDocuments w0) of
           (rs, w1) \<Rightarrow>
             (case settleAll parse w1 (sched (awaited rs)) of
                (oks, w2) \<Rightarrow> (list_all id oks, w2)))"

text \<open>\<open>path.basename\<close>, for paths separated by \<open>/\<close>.\<close>

definition basename :: "string \<Rightarrow> string" where
  "basename p =
     rev (takeWhile (\<lambda>c. c \<noteq> CHR ''/'') (dropWhile (\<lambda>c. c = CHR ''/'') (rev p)))"

text \<open>
  The handler of \<open>onDidSaveTextDocument\<close>. After the save of an \<open>.editorconfig\<close> file the
  transformations are the continuation of the rebuild's promise: they run when it is
  fulfilled and not at all when it is rejected.
\<close>

definition onDidSaveTextDocument ::
    "resolver \<Rightarrow> (string list \<Rightarrow> string list) \<Rightarrow> world \<Rightarrow> nat \<Rightarrow> world" where
  "onDidSaveTextDocument parse sched w h =
     (case documentOf w h of
        None \<Rightarrow> w
      | Some savedDocument \<Rightarrow>
          if basename (fileName savedDocument) = ''.editorconfig''
          then (case rebuildConfigMap parse sched w of
                  (fulfilled, w1) \<Rightarrow> if fulfilled then applyOnSaveTransformations w1 h else w1)
          else applyOnSaveTransformations w h)"

section \<open>Generating a configuration file\<close>

datatype outcome = ShowInformationMessage string | WriteFile string string

definition supportedProperties :: "string list" where
  "supportedProperties = [''indent_style'', ''indent_size'', ''tab_width'']"

text \<open>The variant that appends each line, with its newline, to a template string.\<close>

definition concatFileContents :: "knownProps \<Rightarrow> string" where
  "concatFileContents settings =
     foldl (\<lambda>fileContents setting.
              if hasOwnProperty settings setting
              then fileContents @ setting @ '' = '' @ toString (getProp settings setting) @ [CHR 0x0A]
              else fileContents)
       (''root = true'' @ [CHR 0x0A, CHR 0x0A] @ ''[*]'' @ [CHR 0x0A])
       [''indent_style'', ''indent_size'', ''tab_width'']"

text \<open>\<open>Array.prototype.join\<close> on an array of strings.\<close>

fun join :: "string \<Rightarrow> string list \<Rightarrow> string" where
  "join sep [] = []"
| "join sep [x] = x"
| "join sep (x # y # ys) = x @ sep @ join sep (y # ys)"

text \<open>The variant that pushes each line onto an array and joins the array.\<close>

definition joinFileContents :: "knownProps \<Rightarrow> string" where
  "joinFileContents settings =
     join [CHR 0x0A]
       (foldl (\<lambda>fileContents setting.
                 if hasOwnProperty settings setting
                 then fileContents @ [setting @ '' = '' @ toString (getProp settings setting)]
                 else fileContents)
          [''root = true'', [], ''[*]'']
          supportedProperties)"

text \<open>
  Both variants of \<open>generateEditorConfig\<close>, as functions of what they read from the host:
  the workspace root, the editor settings and whether a file exists at a path. The result
  is the message shown or the file handed to \<open>writeFile\<close>; whether that write succeeds is
  the host's affair.
\<close>

definition generateEditorConfig_concat ::
    "string option \<Rightarrow> editorSettings \<Rightarrow> (string \<Rightarrow> bool) \<Rightarrow> outcome" where
  "generateEditorConfig_concat rootPath editorConfigurationNode fileExists =
     (case rootPath of
        None \<Rightarrow> ShowInformationMessage
                  ''Please open a folder before generating an .editorconfig file''
      | Some root \<Rightarrow>
          if root = [] then ShowInformationMessage
                  ''Please open a folder before generating an .editorconfig file''
          else if fileExists (root @ ''/.editorconfig'')
          then ShowInformationMessage ''A .editorconfig file already exists in your workspace.''
          else WriteFile (root @ ''/.editorconfig'')
                 (concatFileContents (toEditorConfig editorConfigurationNode)))"

definition generateEditorConfig_join ::
    "string option \<Rightarrow> editorSettings \<Rightarrow> (string \<Rightarrow> bool) \<Rightarrow> outcome" where
  "generateEditorConfig_join rootPath editorConfigurationNode fileExists =
     (case rootPath of
        None \<Rightarrow> ShowInformationMessage
                  ''Please open a folder before generating an .editorconfig file''
      | Some root \<Rightarrow>
          if root = [] then ShowInformationMessage
                  ''Please open a folder before generating an .editorconfig file''
          else if fileExists (root @ ''/.editorconfig'')
          then ShowInformationMessage ''A .editorconfig file already exists in your workspace.''
          else WriteFile (root @ ''/.editorconfig'')
                 (joinFileContents (toEditorConfig editorConfigurationNode)))"

section \<open>Decimal numerals are read back as written\<close>

lemma digit_cases: "d < 10 \<Longrightarrow> d \<in> {0, 1, 2, 3, 4, 5, 6, 7, 8, 9::nat}"
  by auto

lemma digitChar_isDigit: "d < 10 \<Longrightarrow> isDigit (digitChar d)"
  using digit_cases [of d] by (auto simp: isDigit_def digitChar_def)

lemma digitVal_digitChar: "d < 10 \<Longrightarrow> digitVal (digitChar d) = d"
  using digit_cases [of d] by (auto simp: digitVal_def digitChar_def)

lemma isDigit_not_space: "isDigit c \<Longrightarrow> \<not> isStrWhiteSpace c"
  by (auto simp: isDigit_def isStrWhiteSpace_def)

lemma isDigit_not_sign: "isDigit c \<Longrightarrow> c \<noteq> CHR ''-'' \<and> c \<noteq> CHR ''+''"
  by (auto simp: isDigit_def)

lemma showNat_digits: "showNat n \<noteq> [] \<and> list_all isDigit (showNat n)"
proof (induction n rule: showNat.induct)
  case (1 n)
  show ?case
  proof (cases "n < 10")
    case True
    then show ?thesis by (simp add: showNat.simps [of n] digitChar_isDigit)
  next
    case False
    with "1" show ?thesis by (simp add: showNat.simps [of n] digitChar_isDigit)
  qed
qed

lemma digitsValue_snoc: "digitsValue (ds @ [c]) = 10 * digitsValue ds + digitVal c"
  by (simp add: digitsValue_def)

lemma digitsValue_showNat: "digitsValue (showNat n) = n"
proof (induction n rule: showNat.induct)
  case (1 n)
  show ?case
  proof (cases "n < 10")
    case True
    then show ?thesis by (simp add: showNat.simps [of n] digitsValue_def digitVal_digitChar)
  next
    case False
    with "1" show ?thesis by (simp add: showNat.simps [of n] digitsValue_snoc digitVal_digitChar)
  qed
qed

lemma parseInt10_digits:
  assumes "ds \<noteq> []" and "list_all isDigit ds"
  shows "parseInt10 ds = Fin (int (digitsValue ds))"
proof -
  obtain c cs where ds: "ds = c # cs" using assms(1) by (cases ds) auto
  with assms(2) have c: "isDigit c" by simp
  have tw: "takeWhile isDigit ds = ds"
    using assms(2) by (simp add: list_all_iff)
  have dw: "dropWhile isStrWhiteSpace ds = ds"
    using c ds by (simp add: isDigit_not_space)
  show ?thesis
    using c isDigit_not_sign [OF c] assms(1)
    by (simp add: parseInt10_def dw tw ds [symmetric]) (simp add: ds)
qed

lemma parseInt10_showNat: "parseInt10 (showNat n) = Fin (int n)"
  using showNat_digits [of n] by (simp add: parseInt10_digits digitsValue_showNat)

lemma parseInt10_showInt: "parseInt10 (showInt i) = Fin i"
proof (cases "i < 0")
  case False
  then show ?thesis by (simp add: showInt_def parseInt10_showNat)
next
  case True
  have tw: "takeWhile isDigit (showNat (nat (- i))) = showNat (nat (- i))"
    using showNat_digits [of "nat (- i)"] by (simp add: list_all_iff)
  have "\<not> isStrWhiteSpace CHR ''-''" by (simp add: isStrWhiteSpace_def)
  with True show ?thesis
    using showNat_digits [of "nat (- i)"]
    by (simp add: showInt_def parseInt10_def tw digitsValue_showNat)
qed

lemma showNat_not_auto: "showNat n \<noteq> ''auto''"
proof
  assume a: "showNat n = ''auto''"
  have "list_all isDigit (showNat n)" using showNat_digits by simp
  with a show False by (simp add: isDigit_def)
qed

lemma resolveTabSize_eval:
  "resolveTabSize (JStr ''8'') = JNum (Fin 8)"
  "resolveTabSize (JStr ''12'') = JNum (Fin 12)"
  "resolveTabSize (JNum (Fin 4)) = JNum (Fin 4)"
  "resolveTabSize (JStr ''auto'') = JNum (Fin 4)"
  by (simp_all add: resolveTabSize_def parseInt10_def isStrWhiteSpace_def isDigit_def
        digitsValue_def digitVal_def showInt_def showNat.simps digitChar_def)

section \<open>Claims about the settings translator\<close>

text \<open>
  C7. \<open>resolveTabSize\<close> sends the string \<open>auto\<close> to 4 and reads every other argument,
  turned into a string, as a decimal integer with \<open>parseInt\<close>. So a string of decimal
  digits gives the number it writes, an integer gives itself (both within the range in
  which a number holds every integer exactly), and \<open>"8"\<close> gives 8.
\<close>

theorem resolveTabSize_auto_or_parse:
  "resolveTabSize (JStr ''auto'') = JNum (Fin 4)
   \<and> (ts \<noteq> JStr ''auto'' \<longrightarrow> resolveTabSize ts = JNum (parseInt10 (toString ts)))
   \<and> (n < 2 ^ 53 \<longrightarrow> resolveTabSize (JStr (showNat n)) = JNum (Fin (int n)))
   \<and> (\<bar>i\<bar> < 2 ^ 53 \<longrightarrow> resolveTabSize (JNum (Fin i)) = JNum (Fin i))
   \<and> resolveTabSize (JStr ''8'') = JNum (Fin 8)"
  by (simp add: resolveTabSize_def parseInt10_showNat parseInt10_showInt showNat_not_auto
        resolveTabSize_eval(1) [unfolded resolveTabSize_def, simplified])

theorem resolveTabSize_auto_or_parse_witness:
  "JStr ''12'' \<noteq> JStr ''auto''
   \<and> resolveTabSize (JStr ''12'') = JNum (parseInt10 (toString (JStr ''12'')))
   \<and> (12::nat) < 2 ^ 53 \<and> \<bar>12::int\<bar> < 2 ^ 53
   \<and> resolveTabSize (JStr ''12'') = JNum (Fin 12)
   \<and> resolveTabSize (JNum (Fin 12)) = JNum (Fin 12)"
proof -
  have twelve: "parseInt10 ''12'' = Fin 12"
    using resolveTabSize_eval(2) by (simp add: resolveTabSize_def)
  show ?thesis
    using resolveTabSize_auto_or_parse [of "JStr ''12''" 12 12]
    by (simp add: twelve resolveTabSize_def)
qed

text \<open>
  C6. \<open>toEditorConfig\<close> gives \<open>indent_style = space\<close> with \<open>indent_size\<close> for
  \<open>insertSpaces === true\<close>, \<open>indent_style = tab\<close> with \<open>tab_width\<close> for \<open>false\<close> and for
  \<open>"auto"\<close>, the size being \<open>resolveTabSize(tabSize)\<close>; for any other value of
  \<open>insertSpaces\<close> the result has no property.
\<close>

theorem toEditorConfig_cases:
  "(insertSpaces opts = JBool True \<longrightarrow>
      toEditorConfig opts =
        [(''indent_style'', JStr ''space''), (''indent_size'', resolveTabSize (tabSize opts))])
   \<and> (insertSpaces opts = JBool False \<or> insertSpaces opts = JStr ''auto'' \<longrightarrow>
      toEditorConfig opts =
        [(''indent_style'', JStr ''tab''), (''tab_width'', resolveTabSize (tabSize opts))])
   \<and> (insertSpaces opts \<noteq> JBool True \<and> insertSpaces opts \<noteq> JBool False
        \<and> insertSpaces opts \<noteq> JStr ''auto'' \<longrightarrow> toEditorConfig opts = [])"
  by (auto simp: toEditorConfig_def setProp_def)

theorem toEditorConfig_cases_witness:
  "toEditorConfig \<lparr>tabSize = JStr ''8'', insertSpaces = JBool True\<rparr> =
     [(''indent_style'', JStr ''space''), (''indent_size'', JNum (Fin 8))]
   \<and> toEditorConfig \<lparr>tabSize = JStr ''auto'', insertSpaces = JBool False\<rparr> =
     [(''indent_style'', JStr ''tab''), (''tab_width'', JNum (Fin 4))]
   \<and> toEditorConfig \<lparr>tabSize = JNum (Fin 4), insertSpaces = JStr ''auto''\<rparr> =
     [(''indent_style'', JStr ''tab''), (''tab_width'', JNum (Fin 4))]
   \<and> toEditorConfig \<lparr>tabSize = JNum (Fin 4), insertSpaces = JStr ''yes''\<rparr> = []"
  using toEditorConfig_cases [of "\<lparr>tabSize = JStr ''8'', insertSpaces = JBool True\<rparr>"]
        toEditorConfig_cases [of "\<lparr>tabSize = JStr ''auto'', insertSpaces = JBool False\<rparr>"]
        toEditorConfig_cases [of "\<lparr>tabSize = JNum (Fin 4), insertSpaces = JStr ''auto''\<rparr>"]
        toEditorConfig_cases [of "\<lparr>tabSize = JNum (Fin 4), insertSpaces = JStr ''yes''\<rparr>"]
  by (simp add: resolveTabSize_eval)

text \<open>
  C4. Round trip: \<open>toEditorConfig\<close> on \<open>{insertSpaces: true, tabSize: 4}\<close> is exactly
  \<open>{indent_style: "space", indent_size: 4}\<close>, and \<open>fromEditorConfig\<close> on that result
  gives back \<open>{insertSpaces: true, tabSize: 4}\<close> whatever the defaults are.
\<close>

theorem toEditorConfig_fromEditorConfig_roundtrip:
  "toEditorConfig \<lparr>tabSize = JNum (Fin 4), insertSpaces = JBool True\<rparr> =
     [(''indent_style'', JStr ''space''), (''indent_size'', JNum (Fin 4))]
   \<and> fromEditorConfig (toEditorConfig \<lparr>tabSize = JNum (Fin 4), insertSpaces = JBool True\<rparr>) dflt =
     \<lparr>tabSize = JNum (Fin 4), insertSpaces = JBool True\<rparr>"
  by (simp add: toEditorConfig_def setProp_def resolveTabSize_eval fromEditorConfig_def
        getProp_def jsOr_def)

text \<open>
  C1, as the code has it. Each step of the two fall-back chains tests the value of the
  property for truthiness, not the presence of the property: \<open>insertSpaces\<close> is
  \<open>indent_style !== "tab"\<close> when \<open>indent_style\<close> is truthy and the default otherwise;
  \<open>tabSize\<close> is the first truthy one of \<open>tab_width\<close>, \<open>indent_size\<close> and the default
  (the default also when it is falsy). An absent property is never truthy. The function
  has no failing step, and on the empty configuration with the defaults
  \<open>{tabSize: 2, insertSpaces: true}\<close> it returns exactly these defaults.
\<close>

theorem fromEditorConfig_truthy_chain:
  "insertSpaces (fromEditorConfig config dflt) =
     (if truthy (getProp config ''indent_style'')
      then JBool (getProp config ''indent_style'' \<noteq> JStr ''tab'')
      else insertSpaces dflt)
   \<and> tabSize (fromEditorConfig config dflt) =
     (if truthy (getProp config ''tab_width'') then getProp config ''tab_width''
      else if truthy (getProp config ''indent_size'') then getProp config ''indent_size''
      else tabSize dflt)
   \<and> (\<not> hasOwnProperty config k \<longrightarrow> \<not> truthy (getProp config k))
   \<and> fromEditorConfig [] \<lparr>tabSize = JNum (Fin 2), insertSpaces = JBool True\<rparr> =
       \<lparr>tabSize = JNum (Fin 2), insertSpaces = JBool True\<rparr>"
  by (simp add: fromEditorConfig_def jsOr_def getProp_def hasOwnProperty_def)

theorem fromEditorConfig_truthy_chain_witness:
  "\<not> hasOwnProperty [(''indent_style'', JStr ''tab''), (''indent_size'', JNum (Fin 2))] ''tab_width''
   \<and> fromEditorConfig [(''indent_style'', JStr ''tab''), (''indent_size'', JNum (Fin 2))]
        \<lparr>tabSize = JNum (Fin 8), insertSpaces = JBool True\<rparr> =
       \<lparr>tabSize = JNum (Fin 2), insertSpaces = JBool False\<rparr>"
  using fromEditorConfig_truthy_chain
          [of "[(''indent_style'', JStr ''tab''), (''indent_size'', JNum (Fin 2))]"
              "\<lparr>tabSize = JNum (Fin 8), insertSpaces = JBool True\<rparr>" "''tab_width''"]
  by (simp add: hasOwnProperty_def getProp_def)

text \<open>
  The claim as written fails where a property is present with a falsy value: with
  \<open>tab_width: 0\<close> and \<open>indent_size: 2\<close> the result's \<open>tabSize\<close> is 2, not the
  \<open>tab_width\<close> that is present.
\<close>

theorem fromEditorConfig_present_zero_tab_width:
  "hasOwnProperty [(''tab_width'', JNum (Fin 0)), (''indent_size'', JNum (Fin 2))] ''tab_width''
   \<and> getProp [(''tab_width'', JNum (Fin 0)), (''indent_size'', JNum (Fin 2))] ''tab_width'' = JNum (Fin 0)
   \<and> tabSize (fromEditorConfig [(''tab_width'', JNum (Fin 0)), (''indent_size'', JNum (Fin 2))]
        \<lparr>tabSize = JNum (Fin 8), insertSpaces = JBool True\<rparr>) = JNum (Fin 2)"
  by (simp add: hasOwnProperty_def getProp_def fromEditorConfig_def jsOr_def)

section \<open>Trimming: the deleted span and idempotence\<close>

lemma trim_Nil_iff: "trimTrailingWhitespace s = [] \<longleftrightarrow> list_all isTrailingSpace s"
  by (induction s) auto

lemma trim_as_dropWhile:
  "trimTrailingWhitespace s = rev (dropWhile isTrailingSpace (rev s))"
proof (induction s)
  case Nil
  show ?case by simp
next
  case (Cons c cs)
  show ?case
  proof (cases "list_all isTrailingSpace (c # cs)")
    case True
    then have "\<forall>x\<in>set (rev (c # cs)). isTrailingSpace x" by (simp add: list_all_iff)
    then have "dropWhile isTrailingSpace (rev (c # cs)) = []" by (simp only: dropWhile_eq_Nil_conv)
    with True show ?thesis by simp
  next
    case False
    show ?thesis
    proof (cases "list_all isTrailingSpace cs")
      case True
      with False have c: "\<not> isTrailingSpace c" by simp
      from True have "\<forall>x\<in>set (rev cs). isTrailingSpace x" by (simp add: list_all_iff)
      then have "dropWhile isTrailingSpace (rev cs @ [c]) = dropWhile isTrailingSpace [c]"
        by (intro dropWhile_append2) auto
      moreover have "trimTrailingWhitespace cs = []" using True by (simp add: trim_Nil_iff)
      ultimately show ?thesis using c False by simp
    next
      case notall: False
      then obtain x where "x \<in> set (rev cs)" "\<not> isTrailingSpace x"
        by (auto simp: list_all_iff)
      then have "dropWhile isTrailingSpace (rev cs @ [c]) = dropWhile isTrailingSpace (rev cs) @ [c]"
        by (simp add: dropWhile_append1)
      with False Cons show ?thesis by simp
    qed
  qed
qed

lemma trim_idem: "trimTrailingWhitespace (trimTrailingWhitespace s) = trimTrailingWhitespace s"
  by (simp add: trim_as_dropWhile dropWhile_idem)

lemma trim_split:
  "s = trimTrailingWhitespace s @ drop (length (trimTrailingWhitespace s)) s
   \<and> list_all isTrailingSpace (drop (length (trimTrailingWhitespace s)) s)"
  by (induction s) auto

lemma trim_take: "take (length (trimTrailingWhitespace s)) s = trimTrailingWhitespace s"
proof -
  have "take (length (trimTrailingWhitespace s))
          (trimTrailingWhitespace s @ drop (length (trimTrailingWhitespace s)) s)
        = trimTrailingWhitespace s"
    by simp
  with trim_split [of s] show ?thesis by simp
qed

lemma trim_last: "trimTrailingWhitespace s = [] \<or> \<not> isTrailingSpace (last (trimTrailingWhitespace s))"
proof (cases "dropWhile isTrailingSpace (rev s)")
  case Nil
  then show ?thesis by (simp add: trim_as_dropWhile)
next
  case (Cons x xs)
  then have "\<not> isTrailingSpace x" by (metis hd_dropWhile list.distinct(1) list.sel(1))
  with Cons show ?thesis by (simp add: trim_as_dropWhile)
qed

lemma trimmingLoop_map:
  "trimmingLoop doc i ops =
     ops @ map (\<lambda>j. trimLineTrailingWhitespace (lineAt doc j)) [i..<lineCount doc]"
proof (induction doc i ops rule: trimmingLoop.induct)
  case (1 doc i ops)
  show ?case
  proof (cases "i < lineCount doc")
    case True
    with "1" show ?thesis
      by (simp add: trimmingLoop.simps [of doc i ops] upt_conv_Cons)
  next
    case False
    then show ?thesis by (simp add: trimmingLoop.simps [of doc i ops])
  qed
qed

lemma transform_active:
  assumes "\<not> truthy flag" and "truthy (getProp cfg ''trim_trailing_whitespace'')"
  shows "trimTrailingWhitespaceTransform flag cfg doc =
           map (\<lambda>j. trimLineTrailingWhitespace \<lparr>lineNumber = j, lineText = lines doc ! j\<rparr>)
             [0..<length (lines doc)]"
  using assms by (simp add: trimTrailingWhitespaceTransform_def trimmingLoop_map lineAt_def lineCount_def)

lemma transform_inactive:
  assumes "truthy flag \<or> \<not> truthy (getProp cfg ''trim_trailing_whitespace'')"
  shows "trimTrailingWhitespaceTransform flag cfg doc = []"
  using assms by (auto simp: trimTrailingWhitespaceTransform_def)

lemma applyIssued_stale: "fst d \<noteq> builtAt \<Longrightarrow> applyIssued builtAt ops d = ([], d)"
  by (induction builtAt ops d rule: applyIssued.induct) (simp_all add: tryApplyEdit_def)

lemma applyIssued_first:
  "applyIssued v (Some e # ops) (v, ls) = ([e], (Suc v, applyEdit e ls))"
  by (simp add: tryApplyEdit_def applyIssued_stale)

lemma applyEdits_first_only:
  "applyEdits [] ls = ls"
  "applyEdits (None # ops) ls = applyEdits ops ls"
  "applyEdits (Some e # ops) ls = applyEdit e ls"
  by (simp_all add: applyEdits_def applyIssued_first del: applyIssued.simps(3))

lemma appliedEdits_first_only:
  "appliedEdits [] ls = []"
  "appliedEdits (None # ops) ls = appliedEdits ops ls"
  "appliedEdits (Some e # ops) ls = [e]"
  by (simp_all add: appliedEdits_def applyIssued_first del: applyIssued.simps(3))

lemma appliedEdits_at_most_one: "length (appliedEdits ops ls) \<le> 1"
proof (induction ops)
  case Nil
  show ?case by (simp add: appliedEdits_first_only)
next
  case (Cons op ops)
  then show ?case by (cases op) (simp_all add: appliedEdits_first_only)
qed

text \<open>
  What holds of a single line: trimming it twice is trimming it once; what is removed is
  a suffix made of characters of the class only, and what remains does not end in such a
  character, so the span is the whole trailing white space; for a line that changes the
  edit issued is the deletion of exactly that span, and an active transform issues one
  operation per line.
\<close>

lemma trim_line_edit_exact:
  "trimTrailingWhitespace (trimTrailingWhitespace s) = trimTrailingWhitespace s
   \<and> s = trimTrailingWhitespace s @ drop (length (trimTrailingWhitespace s)) s
   \<and> list_all isTrailingSpace (drop (length (trimTrailingWhitespace s)) s)
   \<and> (trimTrailingWhitespace s = [] \<or> \<not> isTrailingSpace (last (trimTrailingWhitespace s)))
   \<and> trimLineTrailingWhitespace \<lparr>lineNumber = i, lineText = s\<rparr> =
       (if trimTrailingWhitespace s = s then None
        else Some (DeleteRange (i, length (trimTrailingWhitespace s)) (i, length s)))
   \<and> (\<not> truthy flag \<and> truthy (getProp cfg ''trim_trailing_whitespace'') \<longrightarrow>
        trimTrailingWhitespaceTransform flag cfg doc =
          map (\<lambda>j. trimLineTrailingWhitespace (lineAt doc j)) [0..<lineCount doc])"
proof (intro conjI)
  show "trimTrailingWhitespace (trimTrailingWhitespace s) = trimTrailingWhitespace s"
    by (rule trim_idem)
  show "s = trimTrailingWhitespace s @ drop (length (trimTrailingWhitespace s)) s"
    using trim_split [of s] by simp
  show "list_all isTrailingSpace (drop (length (trimTrailingWhitespace s)) s)"
    using trim_split [of s] by simp
  show "trimTrailingWhitespace s = [] \<or> \<not> isTrailingSpace (last (trimTrailingWhitespace s))"
    by (rule trim_last)
  show "trimLineTrailingWhitespace \<lparr>lineNumber = i, lineText = s\<rparr> =
       (if trimTrailingWhitespace s = s then None
        else Some (DeleteRange (i, length (trimTrailingWhitespace s)) (i, length s)))"
    by (simp add: trimLineTrailingWhitespace_def)
  show "\<not> truthy flag \<and> truthy (getProp cfg ''trim_trailing_whitespace'') \<longrightarrow>
        trimTrailingWhitespaceTransform flag cfg doc =
          map (\<lambda>j. trimLineTrailingWhitespace (lineAt doc j)) [0..<lineCount doc]"
    by (simp add: transform_active lineAt_def lineCount_def)
qed

lemma applyEdit_trim_deletion:
  assumes "i < length ls"
  shows "applyEdit (DeleteRange (i, length (trimTrailingWhitespace (ls ! i))) (i, length (ls ! i))) ls
         = ls[i := trimTrailingWhitespace (ls ! i)]"
  using assms by (simp add: trim_take upd_conv_take_nth_drop)

text \<open>
  C5. The claim asks that a second trim pass over a document issues no edit. Take a
  document with the two lines \<open>a \<close> and \<open>b \<close>, each ending in a space, and a
  configuration with \<open>trim_trailing_whitespace: true\<close>. The pass issues one deletion per
  line, each the exact trailing span, but it issues them through separate calls of
  \<open>editor.edit\<close> without waiting: both builders are bound to the same version of the
  document, the host carries out the first deletion and refuses the second. The second
  line keeps its space, and a second pass issues an edit for it. The same is seen through
  the save handler: one edit is applied and the document is saved with the second line
  untrimmed.
\<close>

theorem trim_second_pass_still_edits:
  "trimTrailingWhitespaceTransform (JBool False) [(''trim_trailing_whitespace'', JBool True)]
      \<lparr>fileName = ''/w/a.txt'', isUntitled = False, lines = [[0x61, 0x20], [0x62, 0x20]]\<rparr>
     = [Some (DeleteRange (0, 1) (0, 2)), Some (DeleteRange (1, 1) (1, 2))]
   \<and> applyEdits [Some (DeleteRange (0, 1) (0, 2)), Some (DeleteRange (1, 1) (1, 2))]
        [[0x61, 0x20], [0x62, 0x20]]
     = [[0x61], [0x62, 0x20]]
   \<and> trimTrailingWhitespaceTransform (JBool False) [(''trim_trailing_whitespace'', JBool True)]
        \<lparr>fileName = ''/w/a.txt'', isUntitled = False, lines = [[0x61], [0x62, 0x20]]\<rparr>
     = [None, Some (DeleteRange (1, 1) (1, 2))]
   \<and> map lines (textDocuments (applyOnSaveTransformations
        \<lparr>documentToConfigMap = [''/w/a.txt'' \<mapsto> [(''trim_trailing_whitespace'', JBool True)]],
         defaultSettings = \<lparr>tabSize = JNum (Fin 4), insertSpaces = JBool True\<rparr>,
         textDocuments =
           [\<lparr>fileName = ''/w/a.txt'', isUntitled = False, lines = [[0x61, 0x20], [0x62, 0x20]]\<rparr>],
         visibleTextEditors =
           [\<lparr>document = 0, options = \<lparr>tabSize = JNum (Fin 4), insertSpaces = JBool True\<rparr>\<rparr>],
         activeTextEditor = Some 0, filesTrimTrailingWhitespace = JBool False,
         statusBarMessage = None, trace = []\<rparr> 0))
     = [[[0x61], [0x62, 0x20]]]
   \<and> trace (applyOnSaveTransformations
        \<lparr>documentToConfigMap = [''/w/a.txt'' \<mapsto> [(''trim_trailing_whitespace'', JBool True)]],
         defaultSettings = \<lparr>tabSize = JNum (Fin 4), insertSpaces = JBool True\<rparr>,
         textDocuments =
           [\<lparr>fileName = ''/w/a.txt'', isUntitled = False, lines = [[0x61, 0x20], [0x62, 0x20]]\<rparr>],
         visibleTextEditors =
           [\<lparr>document = 0, options = \<lparr>tabSize = JNum (Fin 4), insertSpaces = JBool True\<rparr>\<rparr>],
         activeTextEditor = Some 0, filesTrimTrailingWhitespace = JBool False,
         statusBarMessage = None, trace = []\<rparr> 0)
     = [TransformsStarted 0, EditApplied 0 (DeleteRange (0, 1) (0, 2)), DocumentSaved 0]"
proof (intro conjI)
  have upt2: "[0..<2] = [0, Suc 0]" by (simp add: upt_rec)
  show "trimTrailingWhitespaceTransform (JBool False) [(''trim_trailing_whitespace'', JBool True)]
      \<lparr>fileName = ''/w/a.txt'', isUntitled = False, lines = [[0x61, 0x20], [0x62, 0x20]]\<rparr>
     = [Some (DeleteRange (0, 1) (0, 2)), Some (DeleteRange (1, 1) (1, 2))]"
    by (simp add: transform_active getProp_def upt2 trimLineTrailingWhitespace_def
          isTrailingSpace_def Let_def)
  show "applyEdits [Some (DeleteRange (0, 1) (0, 2)), Some (DeleteRange (1, 1) (1, 2))]
        [[0x61, 0x20], [0x62, 0x20]]
     = [[0x61], [0x62, 0x20]]"
    by (simp add: applyEdits_first_only)
  show "trimTrailingWhitespaceTransform (JBool False) [(''trim_trailing_whitespace'', JBool True)]
        \<lparr>fileName = ''/w/a.txt'', isUntitled = False, lines = [[0x61], [0x62, 0x20]]\<rparr>
     = [None, Some (DeleteRange (1, 1) (1, 2))]"
    by (simp add: transform_active getProp_def upt2 trimLineTrailingWhitespace_def
          isTrailingSpace_def Let_def)
  show "map lines (textDocuments (applyOnSaveTransformations
        \<lparr>documentToConfigMap = [''/w/a.txt'' \<mapsto> [(''trim_trailing_whitespace'', JBool True)]],
         defaultSettings = \<lparr>tabSize = JNum (Fin 4), insertSpaces = JBool True\<rparr>,
         textDocuments =
           [\<lparr>fileName = ''/w/a.txt'', isUntitled = False, lines = [[0x61, 0x20], [0x62, 0x20]]\<rparr>],
         visibleTextEditors =
           [\<lparr>document = 0, options = \<lparr>tabSize = JNum (Fin 4), insertSpaces = JBool True\<rparr>\<rparr>],
         activeTextEditor = Some 0, filesTrimTrailingWhitespace = JBool False,
         statusBarMessage = None, trace = []\<rparr> 0))
     = [[[0x61], [0x62, 0x20]]]"
    by code_simp
  show "trace (applyOnSaveTransformations
        \<lparr>documentToConfigMap = [''/w/a.txt'' \<mapsto> [(''trim_trailing_whitespace'', JBool True)]],
         defaultSettings = \<lparr>tabSize = JNum (Fin 4), insertSpaces = JBool True\<rparr>,
         textDocuments =
           [\<lparr>fileName = ''/w/a.txt'', isUntitled = False, lines = [[0x61, 0x20], [0x62, 0x20]]\<rparr>],
         visibleTextEditors =
           [\<lparr>document = 0, options = \<lparr>tabSize = JNum (Fin 4), insertSpaces = JBool True\<rparr>\<rparr>],
         activeTextEditor = Some 0, filesTrimTrailingWhitespace = JBool False,
         statusBarMessage = None, trace = []\<rparr> 0)
     = [TransformsStarted 0, EditApplied 0 (DeleteRange (0, 1) (0, 2)), DocumentSaved 0]"
    by code_simp
qed

theorem trim_second_pass_still_edits_witness:
  "\<not> truthy (JBool False)
   \<and> truthy (getProp [(''trim_trailing_whitespace'', JBool True)] ''trim_trailing_whitespace'')
   \<and> trimTrailingWhitespace [0x62, 0x20] \<noteq> [0x62, 0x20]
   \<and> applyEdits
        (trimTrailingWhitespaceTransform (JBool False) [(''trim_trailing_whitespace'', JBool True)]
           \<lparr>fileName = ''/w/a.txt'', isUntitled = False, lines = [[0x61, 0x20], [0x62, 0x20]]\<rparr>)
        [[0x61, 0x20], [0x62, 0x20]]
     = [[0x61], [0x62, 0x20]]
   \<and> Some (DeleteRange (1, 1) (1, 2))
       \<in> set (trimTrailingWhitespaceTransform (JBool False)
                 [(''trim_trailing_whitespace'', JBool True)]
                 \<lparr>fileName = ''/w/a.txt'', isUntitled = False, lines = [[0x61], [0x62, 0x20]]\<rparr>)"
  using trim_second_pass_still_edits
  by (simp add: getProp_def isTrailingSpace_def)

section \<open>The final newline\<close>

lemma insertFinalNewline_noop_iff:
  "insertFinalNewlineTransform cfg doc = Inr None \<longleftrightarrow>
     (\<not> truthy (getProp cfg ''insert_final_newline'') \<or> lineCount doc = 0
      \<or> length (lines doc ! (lineCount doc - 1)) = 0)"
  by (auto simp: insertFinalNewlineTransform_def Let_def lineAt_def split: sum.splits)

lemma insertFinalNewline_edit:
  assumes "truthy (getProp cfg ''insert_final_newline'')" and "lineCount doc \<noteq> 0"
    and "length (lines doc ! (lineCount doc - 1)) \<noteq> 0"
  shows "insertFinalNewlineTransform cfg doc =
           (case newline cfg of
              Inl e \<Rightarrow> Inl e
            | Inr nl \<Rightarrow> Inr (Some (InsertAt (lineCount doc - 1,
                                             length (lines doc ! (lineCount doc - 1))) nl)))"
  using assms by (simp add: insertFinalNewlineTransform_def Let_def lineAt_def split: sum.splits)

lemma newline_of_string:
  assumes "getProp cfg ''end_of_line'' = JStr s"
  shows "toLowerCase s = ''cr'' \<Longrightarrow> newline cfg = Inr (JStr [CHR 0x0D])"
    and "toLowerCase s = ''crlf'' \<Longrightarrow> newline cfg = Inr (JStr [CHR 0x0D, CHR 0x0A])"
    and "toLowerCase s \<notin> {''cr'', ''crlf'', ''constructor'', ''__proto__''}
         \<Longrightarrow> toLowerCase s \<notin> set inheritedMethods
         \<Longrightarrow> newline cfg = Inr (JStr [CHR 0x0A])"
  using assms by (simp_all add: newline_def literalLookup_def lineEndings_def jsOr_def)

lemma newline_not_string:
  assumes "\<forall>s. getProp cfg ''end_of_line'' \<noteq> JStr s"
  shows "newline cfg = Inl TypeError"
  using assms by (cases "getProp cfg ''end_of_line''") (simp_all add: newline_def)

lemma newline_examples:
  "newline [(''end_of_line'', JStr ''CRLF'')] = Inr (JStr [CHR 0x0D, CHR 0x0A])"
  "newline [(''end_of_line'', JStr ''Cr'')] = Inr (JStr [CHR 0x0D])"
  "newline [(''end_of_line'', JStr ''lf'')] = Inr (JStr [CHR 0x0A])"
  "newline [(''end_of_line'', JStr ''lf2'')] = Inr (JStr [CHR 0x0A])"
  by (simp_all add: newline_def getProp_def toLowerCase_def upperChars_def lowerChars_def
        literalLookup_def lineEndings_def inheritedMethods_def jsOr_def)

text \<open>
  C2. With \<open>insert_final_newline: true\<close>, no \<open>end_of_line\<close> and a document whose last
  line is not empty, the claim asks for one \<open>\n\<close> at the end of the last line. The code
  calls \<open>toLowerCase\<close> on the missing \<open>end_of_line\<close>: the edit callback raises a
  \<open>TypeError\<close> and nothing is inserted.
\<close>

theorem insertFinalNewline_missing_end_of_line:
  "insertFinalNewlineTransform [(''insert_final_newline'', JBool True)]
     \<lparr>fileName = ''/w/a.txt'', isUntitled = False, lines = [[0x61]]\<rparr> = Inl TypeError"
  by (simp add: insertFinalNewlineTransform_def getProp_def lineCount_def lineAt_def newline_def)

theorem insertFinalNewline_missing_end_of_line_witness:
  "truthy (getProp [(''insert_final_newline'', JBool True)] ''insert_final_newline'')
   \<and> lineCount \<lparr>fileName = ''/w/a.txt'', isUntitled = False, lines = [[0x61]]\<rparr> \<noteq> 0
   \<and> getProp [(''insert_final_newline'', JBool True)] ''end_of_line'' = JUndefined
   \<and> insertFinalNewlineTransform [(''insert_final_newline'', JBool True)]
         \<lparr>fileName = ''/w/a.txt'', isUntitled = False, lines = [[0x61]]\<rparr>
       \<noteq> Inr (Some (InsertAt (0, 1) (JStr [CHR 0x0A])))"
  using insertFinalNewline_missing_end_of_line
  by (simp add: getProp_def lineCount_def)

section \<open>What a resolution stores\<close>

lemma getProp_setProp:
  "getProp (setProp obj k v) k' = (if k' = k then v else getProp obj k')"
  by (simp add: getProp_def setProp_def update_conv')

lemma map_emit [simp]: "documentToConfigMap (emit e w) = documentToConfigMap w"
  by (simp add: emit_def)

lemma map_applyEditorConfig [simp]:
  "documentToConfigMap (applyEditorConfigToTextEditor w) = documentToConfigMap w"
  by (simp add: applyEditorConfigToTextEditor_def Let_def split: option.splits prod.splits)

lemma map_onParsed:
  "documentToConfigMap (onParsed w path config) =
     (documentToConfigMap w)(path \<mapsto> normalizeIndentSize config)"
  by (simp add: onParsed_def)

lemma map_settle:
  "documentToConfigMap (snd (settle parse w path)) =
     (case parse path of
        Inl e \<Rightarrow> documentToConfigMap w
      | Inr config \<Rightarrow> (documentToConfigMap w)(path \<mapsto> normalizeIndentSize config))"
  by (simp add: settle_def map_onParsed split: sum.splits)

lemma map_onDidOpenDocument [simp]:
  "documentToConfigMap (snd (onDidOpenDocument w doc)) = documentToConfigMap w"
  by (simp add: onDidOpenDocument_def)

text \<open>
  C3, as the code has it. When the resolver answers for a document that has a path and
  no entry yet, the entry stored is the answer with one change: if \<open>indent_size\<close> is the
  string \<open>tab\<close>, it now has the value of \<open>tab_width\<close> (\<open>undefined\<close> when there is none).
  No other property changes. So the stored \<open>indent_size\<close> is not \<open>tab\<close> whenever
  \<open>tab_width\<close> is not itself the string \<open>tab\<close>.
\<close>

theorem stored_indent_size_is_tab_width:
  assumes "onDidOpenDocument w doc = (Awaiting p, w1)" and "parse p = Inr config"
  shows "p = fileName doc \<and> \<not> isUntitled doc \<and> documentToConfigMap w p = None
         \<and> documentToConfigMap (snd (settle parse w1 p)) p = Some (normalizeIndentSize config)
         \<and> (getProp config ''indent_size'' = JStr ''tab'' \<longrightarrow>
              getProp (normalizeIndentSize config) ''indent_size'' = getProp config ''tab_width'')
         \<and> (getProp config ''indent_size'' \<noteq> JStr ''tab'' \<longrightarrow> normalizeIndentSize config = config)
         \<and> (k \<noteq> ''indent_size'' \<longrightarrow> getProp (normalizeIndentSize config) k = getProp config k)
         \<and> (getProp config ''tab_width'' \<noteq> JStr ''tab'' \<longrightarrow>
              getProp (normalizeIndentSize config) ''indent_size'' \<noteq> JStr ''tab'')"
proof -
  from assms(1) have req: "p = fileName doc" "\<not> isUntitled doc" "documentToConfigMap w p = None"
    by (auto simp: onDidOpenDocument_def split: if_splits)
  have stored: "documentToConfigMap (snd (settle parse w1 p)) p = Some (normalizeIndentSize config)"
    using assms(2) by (simp add: map_settle)
  show ?thesis
    using req stored by (simp add: normalizeIndentSize_def getProp_setProp)
qed

theorem stored_indent_size_is_tab_width_witness:
  "onDidOpenDocument
       \<lparr>documentToConfigMap = Map.empty,
        defaultSettings = \<lparr>tabSize = JNum (Fin 4), insertSpaces = JBool True\<rparr>,
        textDocuments = [\<lparr>fileName = ''/w/a.txt'', isUntitled = False, lines = [[]]\<rparr>],
        visibleTextEditors = [], activeTextEditor = None,
        filesTrimTrailingWhitespace = JBool False, statusBarMessage = None, trace = []\<rparr>
       \<lparr>fileName = ''/w/a.txt'', isUntitled = False, lines = [[]]\<rparr>
     = (Awaiting ''/w/a.txt'',
        \<lparr>documentToConfigMap = Map.empty,
         defaultSettings = \<lparr>tabSize = JNum (Fin 4), insertSpaces = JBool True\<rparr>,
         textDocuments = [\<lparr>fileName = ''/w/a.txt'', isUntitled = False, lines = [[]]\<rparr>],
         visibleTextEditors = [], activeTextEditor = None,
         filesTrimTrailingWhitespace = JBool False, statusBarMessage = None,
         trace = [ParseRequested ''/w/a.txt'']\<rparr>)
   \<and> getProp [(''indent_size'', JStr ''tab''), (''tab_width'', JNum (Fin 8))] ''indent_size'' = JStr ''tab''
   \<and> getProp [(''indent_size'', JStr ''tab''), (''tab_width'', JNum (Fin 8))] ''tab_width'' \<noteq> JStr ''tab''
   \<and> ''charset'' \<noteq> ''indent_size''
   \<and> map_option (\<lambda>stored. getProp stored ''indent_size'')
        (documentToConfigMap
           (snd (settle (\<lambda>p. Inr [(''indent_size'', JStr ''tab''), (''tab_width'', JNum (Fin 8))])
                   \<lparr>documentToConfigMap = Map.empty,
                    defaultSettings = \<lparr>tabSize = JNum (Fin 4), insertSpaces = JBool True\<rparr>,
                    textDocuments = [\<lparr>fileName = ''/w/a.txt'', isUntitled = False, lines = [[]]\<rparr>],
                    visibleTextEditors = [], activeTextEditor = None,
                    filesTrimTrailingWhitespace = JBool False, statusBarMessage = None,
                    trace = [ParseRequested ''/w/a.txt'']\<rparr>
                   ''/w/a.txt''))
           ''/w/a.txt'')
       = Some (JNum (Fin 8))"
proof -
  have start: "onDidOpenDocument
       \<lparr>documentToConfigMap = Map.empty,
        defaultSettings = \<lparr>tabSize = JNum (Fin 4), insertSpaces = JBool True\<rparr>,
        textDocuments = [\<lparr>fileName = ''/w/a.txt'', isUntitled = False, lines = [[]]\<rparr>],
        visibleTextEditors = [], activeTextEditor = None,
        filesTrimTrailingWhitespace = JBool False, statusBarMessage = None, trace = []\<rparr>
       \<lparr>fileName = ''/w/a.txt'', isUntitled = False, lines = [[]]\<rparr>
     = (Awaiting ''/w/a.txt'',
        \<lparr>documentToConfigMap = Map.empty,
         defaultSettings = \<lparr>tabSize = JNum (Fin 4), insertSpaces = JBool True\<rparr>,
         textDocuments = [\<lparr>fileName = ''/w/a.txt'', isUntitled = False, lines = [[]]\<rparr>],
         visibleTextEditors = [], activeTextEditor = None,
         filesTrimTrailingWhitespace = JBool False, statusBarMessage = None,
         trace = [ParseRequested ''/w/a.txt'']\<rparr>)"
    by (simp add: onDidOpenDocument_def emit_def)
  have answer: "(\<lambda>p. Inr [(''indent_size'', JStr ''tab''), (''tab_width'', JNum (Fin 8))]
                  :: error + knownProps) ''/w/a.txt''
                = Inr [(''indent_size'', JStr ''tab''), (''tab_width'', JNum (Fin 8))]"
    by simp
  show ?thesis
    using stored_indent_size_is_tab_width [OF start answer, of "''charset''"] start
    by (simp add: getProp_def normalizeIndentSize_def setProp_def)
qed

text \<open>
  The claim as written fails when \<open>tab_width\<close> is itself the string \<open>tab\<close>: the entry
  stored then still has \<open>indent_size\<close> equal to \<open>tab\<close>.
\<close>

theorem stored_indent_size_tab_when_tab_width_tab:
  "map_option (\<lambda>stored. getProp stored ''indent_size'')
     (documentToConfigMap
        (snd (settle (\<lambda>p. Inr [(''indent_size'', JStr ''tab''), (''tab_width'', JStr ''tab'')])
                (snd (onDidOpenDocument
                        \<lparr>documentToConfigMap = Map.empty,
                         defaultSettings = \<lparr>tabSize = JNum (Fin 4), insertSpaces = JBool True\<rparr>,
                         textDocuments = [\<lparr>fileName = ''/w/a.txt'', isUntitled = False, lines = [[]]\<rparr>],
                         visibleTextEditors = [], activeTextEditor = None,
                         filesTrimTrailingWhitespace = JBool False,
                         statusBarMessage = None, trace = []\<rparr>
                        \<lparr>fileName = ''/w/a.txt'', isUntitled = False, lines = [[]]\<rparr>))
                ''/w/a.txt''))
        ''/w/a.txt'')
   = Some (JStr ''tab'')"
  by (simp add: map_settle normalizeIndentSize_def getProp_def setProp_def)

section \<open>The two generators\<close>

lemma join_snoc: "xs \<noteq> [] \<Longrightarrow> join sep (xs @ [x]) = join sep xs @ sep @ x"
  by (induction sep xs rule: join.induct) auto

text \<open>
  C10, as the code has it. The variant that appends to a template string ends every
  line, the last one too, with a newline; the variant that joins an array puts newlines
  between the lines only. For every settings object the first result is the second one
  followed by one newline, so the two files differ in exactly that final character.
\<close>

theorem concat_is_join_with_final_newline:
  "concatFileContents settings = joinFileContents settings @ [CHR 0x0A]
   \<and> (generateEditorConfig_join rootPath node fileExists = WriteFile path contents \<longrightarrow>
        generateEditorConfig_concat rootPath node fileExists = WriteFile path (contents @ [CHR 0x0A]))"
proof
  show c: "concatFileContents settings = joinFileContents settings @ [CHR 0x0A]" for settings
    by (simp add: concatFileContents_def joinFileContents_def supportedProperties_def)
  show "generateEditorConfig_join rootPath node fileExists = WriteFile path contents \<longrightarrow>
        generateEditorConfig_concat rootPath node fileExists = WriteFile path (contents @ [CHR 0x0A])"
    by (auto simp: generateEditorConfig_join_def generateEditorConfig_concat_def c
          split: option.splits if_splits)
qed

theorem concat_is_join_with_final_newline_witness:
  "generateEditorConfig_join (Some ''/w'') \<lparr>tabSize = JNum (Fin 4), insertSpaces = JBool True\<rparr>
       (\<lambda>p. False) =
     WriteFile ''/w/.editorconfig''
       (''root = true'' @ [CHR 0x0A, CHR 0x0A] @ ''[*]'' @ [CHR 0x0A] @
        ''indent_style = space'' @ [CHR 0x0A] @ ''indent_size = 4'')
   \<and> generateEditorConfig_concat (Some ''/w'') \<lparr>tabSize = JNum (Fin 4), insertSpaces = JBool True\<rparr>
       (\<lambda>p. False) =
     WriteFile ''/w/.editorconfig''
       (''root = true'' @ [CHR 0x0A, CHR 0x0A] @ ''[*]'' @ [CHR 0x0A] @
        ''indent_style = space'' @ [CHR 0x0A] @ ''indent_size = 4'' @ [CHR 0x0A])"
proof -
  have j: "generateEditorConfig_join (Some ''/w'')
             \<lparr>tabSize = JNum (Fin 4), insertSpaces = JBool True\<rparr> (\<lambda>p. False) =
           WriteFile ''/w/.editorconfig''
             (''root = true'' @ [CHR 0x0A, CHR 0x0A] @ ''[*]'' @ [CHR 0x0A] @
              ''indent_style = space'' @ [CHR 0x0A] @ ''indent_size = 4'')"
    by (simp add: generateEditorConfig_join_def joinFileContents_def supportedProperties_def
          toEditorConfig_def setProp_def hasOwnProperty_def getProp_def resolveTabSize_eval
          showInt_def showNat.simps digitChar_def)
  show ?thesis
    using concat_is_join_with_final_newline
            [of "[]" "Some ''/w''" "\<lparr>tabSize = JNum (Fin 4), insertSpaces = JBool True\<rparr>"
                "\<lambda>p. False" "''/w/.editorconfig''"
                "''root = true'' @ [CHR 0x0A, CHR 0x0A] @ ''[*]'' @ [CHR 0x0A] @
                 ''indent_style = space'' @ [CHR 0x0A] @ ''indent_size = 4''"] j
    by simp
qed

text \<open>
  The claim as written fails already for a settings object without properties: one file
  ends with a newline and the other does not.
\<close>

theorem generators_differ_on_empty_settings:
  "concatFileContents [] = ''root = true'' @ [CHR 0x0A, CHR 0x0A] @ ''[*]'' @ [CHR 0x0A]
   \<and> joinFileContents [] = ''root = true'' @ [CHR 0x0A, CHR 0x0A] @ ''[*]''
   \<and> concatFileContents [] \<noteq> joinFileContents []"
  by (simp add: concatFileContents_def joinFileContents_def supportedProperties_def
        hasOwnProperty_def)

section \<open>Resolution, rebuild and the order of steps\<close>

lemma trace_emit [simp]: "trace (emit e w) = trace w @ [e]"
  by (simp add: emit_def)

lemma docs_emit [simp]: "textDocuments (emit e w) = textDocuments w"
  by (simp add: emit_def)

lemma trace_applyEditorConfig [simp]:
  "trace (applyEditorConfigToTextEditor w) = trace w"
  by (simp add: applyEditorConfigToTextEditor_def Let_def split: option.splits prod.splits)

lemma docs_applyEditorConfig [simp]:
  "textDocuments (applyEditorConfigToTextEditor w) = textDocuments w"
  by (simp add: applyEditorConfigToTextEditor_def Let_def split: option.splits prod.splits)

lemma beginAll_Cons:
  "beginAll w (d # ds) =
     (fst (onDidOpenDocument w d) # fst (beginAll (snd (onDidOpenDocument w d)) ds),
      snd (beginAll (snd (onDidOpenDocument w d)) ds))"
  by (simp split: prod.splits)

lemma settleAll_Cons:
  "settleAll parse w (p # ps) =
     (fst (settle parse w p) # fst (settleAll parse (snd (settle parse w p)) ps),
      snd (settleAll parse (snd (settle parse w p)) ps))"
  by (simp split: prod.splits)

lemma onDidOpenDocument_fst:
  "fst (onDidOpenDocument w d) =
     (if \<not> isUntitled d \<and> documentToConfigMap w (fileName d) = None
      then Awaiting (fileName d) else Done)"
  by (simp add: onDidOpenDocument_def)

lemma onDidOpenDocument_trace:
  "trace (snd (onDidOpenDocument w d)) =
     trace w @ map ParseRequested
                 (case fst (onDidOpenDocument w d) of Done \<Rightarrow> [] | Awaiting p \<Rightarrow> [p])"
  by (simp add: onDidOpenDocument_def)

lemma onDidOpenDocument_docs [simp]:
  "textDocuments (snd (onDidOpenDocument w d)) = textDocuments w"
  by (simp add: onDidOpenDocument_def)

lemma awaited_Cons:
  "awaited (r # rs) = (case r of Done \<Rightarrow> [] | Awaiting p \<Rightarrow> [p]) @ awaited rs"
  by (cases r) simp_all

lemma beginAll_map [simp]:
  "documentToConfigMap (snd (beginAll w ds)) = documentToConfigMap w"
  by (induction ds arbitrary: w) (simp_all add: beginAll_Cons del: beginAll.simps(2))

lemma beginAll_docs [simp]: "textDocuments (snd (beginAll w ds)) = textDocuments w"
  by (induction ds arbitrary: w) (simp_all add: beginAll_Cons del: beginAll.simps(2))

lemma beginAll_awaited:
  "awaited (fst (beginAll w ds)) =
     map fileName (filter (\<lambda>d. \<not> isUntitled d \<and> documentToConfigMap w (fileName d) = None) ds)"
  by (induction ds arbitrary: w)
     (simp_all add: beginAll_Cons onDidOpenDocument_fst del: beginAll.simps(2))

lemma beginAll_trace:
  "trace (snd (beginAll w ds)) = trace w @ map ParseRequested (awaited (fst (beginAll w ds)))"
proof (induction ds arbitrary: w)
  case Nil
  show ?case by simp
next
  case (Cons d ds)
  let ?w1 = "snd (onDidOpenDocument w d)"
  have "trace (snd (beginAll w (d # ds))) = trace (snd (beginAll ?w1 ds))"
    by (simp only: beginAll_Cons snd_conv)
  also have "\<dots> = trace ?w1 @ map ParseRequested (awaited (fst (beginAll ?w1 ds)))"
    by (rule Cons)
  also have "\<dots> = trace w @ map ParseRequested
                 ((case fst (onDidOpenDocument w d) of Done \<Rightarrow> [] | Awaiting p \<Rightarrow> [p])
                  @ awaited (fst (beginAll ?w1 ds)))"
    by (simp only: onDidOpenDocument_trace map_append append_assoc)
  also have "\<dots> = trace w @ map ParseRequested (awaited (fst (beginAll w (d # ds))))"
    by (simp only: beginAll_Cons fst_conv awaited_Cons)
  finally show ?case .
qed

lemma settle_fst: "fst (settle parse w p) = (\<not> isl (parse p))"
  by (simp add: settle_def split: sum.splits)

lemma settle_trace:
  "trace (snd (settle parse w p)) = trace w @ [ParseSettled p (\<not> isl (parse p))]"
  by (simp add: settle_def onParsed_def split: sum.splits)

lemma settleAll_fst: "fst (settleAll parse w ps) = map (\<lambda>p. \<not> isl (parse p)) ps"
  by (induction ps arbitrary: w)
     (simp_all add: settleAll_Cons settle_fst del: settleAll.simps(2))

lemma settleAll_trace:
  "trace (snd (settleAll parse w ps)) =
     trace w @ map (\<lambda>p. ParseSettled p (\<not> isl (parse p))) ps"
  by (induction ps arbitrary: w)
     (simp_all add: settleAll_Cons settle_trace del: settleAll.simps(2))

lemma settleAll_map:
  "documentToConfigMap (snd (settleAll parse w ps)) q =
     (if q \<in> set ps
      then (case parse q of
              Inl e \<Rightarrow> documentToConfigMap w q
            | Inr config \<Rightarrow> Some (normalizeIndentSize config))
      else documentToConfigMap w q)"
  by (induction ps arbitrary: w)
     (simp_all add: settleAll_Cons map_settle split: sum.splits del: settleAll.simps(2))

lemma rebuild_unfold:
  "rebuildConfigMap parse sched w =
     (let w0 = emit MapCleared (w\<lparr> documentToConfigMap := Map.empty \<rparr>);
          b = beginAll w0 (textDocuments w);
          s = settleAll parse (snd b) (sched (awaited (fst b)))
      in (list_all id (fst s), snd s))"
  by (simp add: rebuildConfigMap_def Let_def split: prod.splits)

lemma rebuild_awaited:
  "awaited (fst (beginAll (emit MapCleared (w\<lparr> documentToConfigMap := Map.empty \<rparr>))
                   (textDocuments w))) =
     map fileName (filter (\<lambda>d. \<not> isUntitled d) (textDocuments w))"
  by (simp add: beginAll_awaited)

lemma rebuild_fst:
  "fst (rebuildConfigMap parse sched w) =
     list_all (\<lambda>p. \<not> isl (parse p))
       (sched (map fileName (filter (\<lambda>d. \<not> isUntitled d) (textDocuments w))))"
  by (simp add: rebuild_unfold Let_def rebuild_awaited settleAll_fst list_all_iff)

lemma rebuild_trace:
  "trace (snd (rebuildConfigMap parse sched w)) =
     trace w @ [MapCleared]
     @ map ParseRequested (map fileName (filter (\<lambda>d. \<not> isUntitled d) (textDocuments w)))
     @ map (\<lambda>p. ParseSettled p (\<not> isl (parse p)))
         (sched (map fileName (filter (\<lambda>d. \<not> isUntitled d) (textDocuments w))))"
  by (simp add: rebuild_unfold Let_def settleAll_trace beginAll_trace rebuild_awaited)

lemma rebuild_map:
  "documentToConfigMap (snd (rebuildConfigMap parse sched w)) q =
     (if q \<in> set (sched (map fileName (filter (\<lambda>d. \<not> isUntitled d) (textDocuments w))))
      then (case parse q of Inl e \<Rightarrow> None | Inr config \<Rightarrow> Some (normalizeIndentSize config))
      else None)"
  by (simp add: rebuild_unfold Let_def settleAll_map rebuild_awaited split: sum.splits)

lemma trace_emits:
  "trace (foldl (\<lambda>w' e. emit (f e) w') w es) = trace w @ map f es"
  by (induction es arbitrary: w) simp_all

lemma map_emits [simp]:
  "documentToConfigMap (foldl (\<lambda>w' e. emit (f e) w') w es) = documentToConfigMap w"
  by (induction es arbitrary: w) simp_all

lemma performEdits_trace:
  "\<exists>es. trace (performEdits h ops w) = trace w @ es \<and> (\<forall>e\<in>set es. isTransformEvent e)"
proof (cases "documentOf w h")
  case None
  then show ?thesis by (simp add: performEdits_def)
next
  case (Some doc)
  then have "trace (performEdits h ops w) =
               trace w @ map (EditApplied h) (appliedEdits ops (lines doc))"
    by (simp add: performEdits_def trace_emits)
  then show ?thesis by auto
qed

lemma performEdits_map [simp]:
  "documentToConfigMap (performEdits h ops w) = documentToConfigMap w"
  by (simp add: performEdits_def split: option.splits)

lemma applyOnSave_trace:
  "\<exists>post. trace (applyOnSaveTransformations w h) = trace w @ post
          \<and> (\<forall>e\<in>set post. isTransformEvent e)"
proof (cases "\<exists>doc cfg ed. documentOf w h = Some doc \<and> getSettingsForDocument w doc = Some cfg
                \<and> findEditor w h = Some ed")
  case False
  then have "applyOnSaveTransformations w h = w"
    by (auto simp: applyOnSaveTransformations_def split: option.splits)
  then show ?thesis by simp
next
  case True
  then obtain doc cfg ed where g: "documentOf w h = Some doc"
    "getSettingsForDocument w doc = Some cfg" "findEditor w h = Some ed" by blast
  let ?w1 = "emit (TransformsStarted h) w"
  let ?w2 = "performEdits h
               (trimTrailingWhitespaceTransform (filesTrimTrailingWhitespace ?w1) cfg doc) ?w1"
  obtain es where es: "trace ?w2 = trace ?w1 @ es" "\<forall>e\<in>set es. isTransformEvent e"
    using performEdits_trace by blast
  then have t2: "trace ?w2 = trace w @ (TransformsStarted h # es)" by simp
  show ?thesis
  proof (cases "documentOf ?w2 h")
    case None
    with g have "applyOnSaveTransformations w h = ?w2"
      by (simp add: applyOnSaveTransformations_def Let_def)
    with t2 es(2) show ?thesis by (intro exI [of _ "TransformsStarted h # es"]) simp
  next
    case (Some trimmed)
    show ?thesis
    proof (cases "insertFinalNewlineTransform cfg trimmed")
      case (Inl e)
      with g Some have "applyOnSaveTransformations w h = ?w2"
        by (simp add: applyOnSaveTransformations_def Let_def)
      with t2 es(2) show ?thesis by (intro exI [of _ "TransformsStarted h # es"]) simp
    next
      case (Inr ins)
      with g Some have r: "applyOnSaveTransformations w h =
          emit (DocumentSaved h) (performEdits h [ins] ?w2)"
        by (simp add: applyOnSaveTransformations_def Let_def)
      obtain es' where es': "trace (performEdits h [ins] ?w2) = trace ?w2 @ es'"
        "\<forall>e\<in>set es'. isTransformEvent e"
        using performEdits_trace by blast
      have "trace (applyOnSaveTransformations w h) =
              trace w @ (TransformsStarted h # es @ es' @ [DocumentSaved h])"
        using r es' t2 by simp
      with es(2) es'(2) show ?thesis
        by (intro exI [of _ "TransformsStarted h # es @ es' @ [DocumentSaved h]"]) auto
    qed
  qed
qed

lemma applyOnSave_map [simp]:
  "documentToConfigMap (applyOnSaveTransformations w h) = documentToConfigMap w"
  by (simp add: applyOnSaveTransformations_def Let_def split: option.splits sum.splits)

lemma applyOnSave_without_config:
  assumes "documentOf w h = Some doc" and "documentToConfigMap w (fileName doc) = None"
  shows "applyOnSaveTransformations w h = w"
  using assms by (simp add: applyOnSaveTransformations_def getSettingsForDocument_def)

lemma applyEditorConfig_without_config:
  assumes "activeEditor w = Some (i, ed)" and "documentOf w (document ed) = Some doc"
    and "documentToConfigMap w (fileName doc) = None"
  shows "applyEditorConfigToTextEditor w = w"
  using assms by (simp add: applyEditorConfigToTextEditor_def getSettingsForDocument_def)

text \<open>
  C8. When the saved document is an \<open>.editorconfig\<close> file, everything the handler does
  after the rebuild is a step of the transformations, and it comes after the whole
  rebuild: the map is emptied, a resolution is requested for every open document that has
  a path, and each of these requests is answered, in whatever order \<open>sched\<close> gives. The
  transformations then see the rebuilt map. They run only if every request was
  fulfilled. For any other saved document the handler is the transformations alone: the
  map is neither emptied nor rebuilt.
\<close>

theorem rebuild_precedes_transformations:
  assumes "documentOf w h = Some saved"
  shows "(basename (fileName saved) = ''.editorconfig'' \<longrightarrow>
           (\<exists>post.
              trace (onDidSaveTextDocument parse sched w h) =
                trace (snd (rebuildConfigMap parse sched w)) @ post
              \<and> (\<forall>e\<in>set post. isTransformEvent e)
              \<and> (post \<noteq> [] \<longrightarrow> fst (rebuildConfigMap parse sched w)))
           \<and> trace (snd (rebuildConfigMap parse sched w)) =
               trace w @ [MapCleared]
               @ map ParseRequested
                   (map fileName (filter (\<lambda>d. \<not> isUntitled d) (textDocuments w)))
               @ map (\<lambda>p. ParseSettled p (\<not> isl (parse p)))
                   (sched (map fileName (filter (\<lambda>d. \<not> isUntitled d) (textDocuments w))))
           \<and> (set (sched (map fileName (filter (\<lambda>d. \<not> isUntitled d) (textDocuments w)))) =
                set (map fileName (filter (\<lambda>d. \<not> isUntitled d) (textDocuments w))) \<longrightarrow>
               (\<forall>d\<in>set (textDocuments w). \<not> isUntitled d \<longrightarrow>
                  ParseSettled (fileName d) (\<not> isl (parse (fileName d)))
                    \<in> set (trace (snd (rebuildConfigMap parse sched w)))))
           \<and> documentToConfigMap (onDidSaveTextDocument parse sched w h) =
               documentToConfigMap (snd (rebuildConfigMap parse sched w)))
         \<and> (basename (fileName saved) \<noteq> ''.editorconfig'' \<longrightarrow>
             onDidSaveTextDocument parse sched w h = applyOnSaveTransformations w h
             \<and> (\<exists>post. trace (onDidSaveTextDocument parse sched w h) = trace w @ post
                       \<and> (\<forall>e\<in>set post. isTransformEvent e))
             \<and> documentToConfigMap (onDidSaveTextDocument parse sched w h) = documentToConfigMap w)"
proof (intro conjI impI)
  assume ec: "basename (fileName saved) = ''.editorconfig''"
  let ?r = "rebuildConfigMap parse sched w"
  have h: "onDidSaveTextDocument parse sched w h =
             (if fst ?r then applyOnSaveTransformations (snd ?r) h else snd ?r)"
    using assms ec by (simp add: onDidSaveTextDocument_def split: prod.splits)
  show "\<exists>post. trace (onDidSaveTextDocument parse sched w h) = trace (snd ?r) @ post
          \<and> (\<forall>e\<in>set post. isTransformEvent e) \<and> (post \<noteq> [] \<longrightarrow> fst ?r)"
  proof (cases "fst ?r")
    case True
    obtain post where "trace (applyOnSaveTransformations (snd ?r) h) = trace (snd ?r) @ post"
      "\<forall>e\<in>set post. isTransformEvent e"
      using applyOnSave_trace by blast
    with True h show ?thesis by auto
  next
    case False
    with h have "trace (onDidSaveTextDocument parse sched w h) = trace (snd ?r) @ []" by simp
    then show ?thesis by (intro exI [of _ "[]"]) simp
  qed
  show "documentToConfigMap (onDidSaveTextDocument parse sched w h) =
          documentToConfigMap (snd ?r)"
    using h by simp
next
  show "trace (snd (rebuildConfigMap parse sched w)) =
          trace w @ [MapCleared]
          @ map ParseRequested
              (map fileName (filter (\<lambda>d. \<not> isUntitled d) (textDocuments w)))
          @ map (\<lambda>p. ParseSettled p (\<not> isl (parse p)))
              (sched (map fileName (filter (\<lambda>d. \<not> isUntitled d) (textDocuments w))))"
    by (rule rebuild_trace)
next
  assume perm: "set (sched (map fileName (filter (\<lambda>d. \<not> isUntitled d) (textDocuments w)))) =
                set (map fileName (filter (\<lambda>d. \<not> isUntitled d) (textDocuments w)))"
  show "\<forall>d\<in>set (textDocuments w). \<not> isUntitled d \<longrightarrow>
          ParseSettled (fileName d) (\<not> isl (parse (fileName d)))
            \<in> set (trace (snd (rebuildConfigMap parse sched w)))"
  proof (intro ballI impI)
    fix d
    assume "d \<in> set (textDocuments w)" and "\<not> isUntitled d"
    then have "fileName d \<in> set (sched (map fileName (filter (\<lambda>d. \<not> isUntitled d) (textDocuments w))))"
      using perm by auto
    then show "ParseSettled (fileName d) (\<not> isl (parse (fileName d)))
                 \<in> set (trace (snd (rebuildConfigMap parse sched w)))"
      by (auto simp: rebuild_trace)
  qed
next
  assume other: "basename (fileName saved) \<noteq> ''.editorconfig''"
  show eq: "onDidSaveTextDocument parse sched w h = applyOnSaveTransformations w h"
    using assms other by (simp add: onDidSaveTextDocument_def)
  show "\<exists>post. trace (onDidSaveTextDocument parse sched w h) = trace w @ post
                \<and> (\<forall>e\<in>set post. isTransformEvent e)"
    using applyOnSave_trace [of w h] eq by simp
  show "documentToConfigMap (onDidSaveTextDocument parse sched w h) = documentToConfigMap w"
    using eq by simp
qed

theorem rebuild_precedes_transformations_witness:
  "documentOf
      \<lparr>documentToConfigMap =
         [''/w/a.txt'' \<mapsto> [(''trim_trailing_whitespace'', JBool True),
                             (''insert_final_newline'', JBool True),
                             (''end_of_line'', JStr ''lf'')]],
       defaultSettings = \<lparr>tabSize = JNum (Fin 4), insertSpaces = JBool True\<rparr>,
       textDocuments =
         [\<lparr>fileName = ''/w/a.txt'', isUntitled = False, lines = [[0x61, 0x20]]\<rparr>,
          \<lparr>fileName = ''/w/.editorconfig'', isUntitled = False, lines = [[0x72]]\<rparr>],
       visibleTextEditors =
         [\<lparr>document = 0, options = \<lparr>tabSize = JNum (Fin 4), insertSpaces = JBool True\<rparr>\<rparr>,
          \<lparr>document = 1, options = \<lparr>tabSize = JNum (Fin 4), insertSpaces = JBool True\<rparr>\<rparr>],
       activeTextEditor = Some 1, filesTrimTrailingWhitespace = JBool False,
       statusBarMessage = None, trace = []\<rparr> 1
     = Some \<lparr>fileName = ''/w/.editorconfig'', isUntitled = False, lines = [[0x72]]\<rparr>
   \<and> basename ''/w/.editorconfig'' = ''.editorconfig''
   \<and> basename ''/w/a.txt'' \<noteq> ''.editorconfig''
   \<and> set (rev [''/w/a.txt'', ''/w/.editorconfig'']) = set [''/w/a.txt'', ''/w/.editorconfig'']
   \<and> trace (onDidSaveTextDocument
         (\<lambda>p. Inr [(''insert_final_newline'', JBool True), (''end_of_line'', JStr ''lf'')]) rev
         \<lparr>documentToConfigMap =
            [''/w/a.txt'' \<mapsto> [(''trim_trailing_whitespace'', JBool True),
                                (''insert_final_newline'', JBool True),
                                (''end_of_line'', JStr ''lf'')]],
          defaultSettings = \<lparr>tabSize = JNum (Fin 4), insertSpaces = JBool True\<rparr>,
          textDocuments =
            [\<lparr>fileName = ''/w/a.txt'', isUntitled = False, lines = [[0x61, 0x20]]\<rparr>,
             \<lparr>fileName = ''/w/.editorconfig'', isUntitled = False, lines = [[0x72]]\<rparr>],
          visibleTextEditors =
            [\<lparr>document = 0, options = \<lparr>tabSize = JNum (Fin 4), insertSpaces = JBool True\<rparr>\<rparr>,
             \<lparr>document = 1, options = \<lparr>tabSize = JNum (Fin 4), insertSpaces = JBool True\<rparr>\<rparr>],
          activeTextEditor = Some 1, filesTrimTrailingWhitespace = JBool False,
          statusBarMessage = None, trace = []\<rparr> 1)
       = [MapCleared, ParseRequested ''/w/a.txt'', ParseRequested ''/w/.editorconfig'',
          ParseSettled ''/w/.editorconfig'' True, ParseSettled ''/w/a.txt'' True,
          TransformsStarted 1, EditApplied 1 (InsertAt (0, 1) (JStr [CHR 0x0A])),
          DocumentSaved 1]
   \<and> trace (onDidSaveTextDocument
         (\<lambda>p. Inr [(''insert_final_newline'', JBool True), (''end_of_line'', JStr ''lf'')]) rev
         \<lparr>documentToConfigMap =
            [''/w/a.txt'' \<mapsto> [(''trim_trailing_whitespace'', JBool True),
                                (''insert_final_newline'', JBool True),
                                (''end_of_line'', JStr ''lf'')]],
          defaultSettings = \<lparr>tabSize = JNum (Fin 4), insertSpaces = JBool True\<rparr>,
          textDocuments =
            [\<lparr>fileName = ''/w/a.txt'', isUntitled = False, lines = [[0x61, 0x20]]\<rparr>,
             \<lparr>fileName = ''/w/.editorconfig'', isUntitled = False, lines = [[0x72]]\<rparr>],
          visibleTextEditors =
            [\<lparr>document = 0, options = \<lparr>tabSize = JNum (Fin 4), insertSpaces = JBool True\<rparr>\<rparr>,
             \<lparr>document = 1, options = \<lparr>tabSize = JNum (Fin 4), insertSpaces = JBool True\<rparr>\<rparr>],
          activeTextEditor = Some 1, filesTrimTrailingWhitespace = JBool False,
          statusBarMessage = None, trace = []\<rparr> 0)
       = [TransformsStarted 0, EditApplied 0 (DeleteRange (0, 1) (0, 2)),
          EditApplied 0 (InsertAt (0, 1) (JStr [CHR 0x0A])), DocumentSaved 0]"
  (is "documentOf ?W 1 = Some ?ec \<and> _ \<and> _ \<and> _ \<and> trace (onDidSaveTextDocument ?P rev ?W 1) = ?t1
       \<and> trace (onDidSaveTextDocument ?P rev ?W 0) = ?t0")
proof -
  have d1: "documentOf ?W 1 = Some ?ec" by (simp add: documentOf_def)
  have d0: "documentOf ?W 0 = Some \<lparr>fileName = ''/w/a.txt'', isUntitled = False, lines = [[0x61, 0x20]]\<rparr>"
    by (simp add: documentOf_def)
  have b: "basename ''/w/.editorconfig'' = ''.editorconfig''" "basename ''/w/a.txt'' \<noteq> ''.editorconfig''"
    by (simp_all add: basename_def)
  have perm: "set (rev [''/w/a.txt'', ''/w/.editorconfig'']) = set [''/w/a.txt'', ''/w/.editorconfig'']"
    by (rule set_rev)
  have t1: "trace (onDidSaveTextDocument ?P rev ?W 1) = ?t1" by code_simp
  have t0: "trace (onDidSaveTextDocument ?P rev ?W 0) = ?t0" by code_simp
  show ?thesis
    using rebuild_precedes_transformations [OF d1, of ?P rev]
          rebuild_precedes_transformations [OF d0, of ?P rev] d1 b t1 t0 perm
    by (simp del: set_rev)
qed

text \<open>
  C9. Let the resolver fail for path \<open>pA\<close> and answer for path \<open>pB\<close>. Whatever requests
  are pending together with the one for \<open>pB\<close>, and in whatever order they are answered,
  the entry for \<open>pB\<close> is stored and its promise is fulfilled; a path \<open>pA\<close> without an entry
  still has none afterwards. The same holds for a rebuild over all open documents. With
  no entry for a document, a save of it changes nothing and applying the settings to an
  editor that shows it changes nothing: neither step fails.
\<close>

theorem resolution_failure_is_isolated:
  assumes "parse pA = Inl err" and "parse pB = Inr config"
  shows "(pB \<in> set ps \<and> documentToConfigMap w pA = None \<longrightarrow>
            documentToConfigMap (snd (settleAll parse w ps)) pB = Some (normalizeIndentSize config)
            \<and> ParseSettled pB True \<in> set (trace (snd (settleAll parse w ps)))
            \<and> documentToConfigMap (snd (settleAll parse w ps)) pA = None)
         \<and> (pB \<in> set (sched (map fileName (filter (\<lambda>d. \<not> isUntitled d) (textDocuments w)))) \<longrightarrow>
            documentToConfigMap (snd (rebuildConfigMap parse sched w)) pB
              = Some (normalizeIndentSize config)
            \<and> ParseSettled pB True \<in> set (trace (snd (rebuildConfigMap parse sched w)))
            \<and> documentToConfigMap (snd (rebuildConfigMap parse sched w)) pA = None)
         \<and> (documentToConfigMap w' pA = None \<and> fileName doc = pA \<longrightarrow>
            getSettingsForDocument w' doc = None
            \<and> (documentOf w' h = Some doc \<longrightarrow> applyOnSaveTransformations w' h = w')
            \<and> (activeEditor w' = Some (i, ed) \<and> documentOf w' (document ed) = Some doc \<longrightarrow>
                 applyEditorConfigToTextEditor w' = w'))"
proof (intro conjI impI)
  assume a: "pB \<in> set ps \<and> documentToConfigMap w pA = None"
  show "documentToConfigMap (snd (settleAll parse w ps)) pB = Some (normalizeIndentSize config)"
    using a assms(2) by (simp add: settleAll_map)
  show "ParseSettled pB True \<in> set (trace (snd (settleAll parse w ps)))"
    using a assms(2) by (auto simp: settleAll_trace)
  show "documentToConfigMap (snd (settleAll parse w ps)) pA = None"
    using a assms(1) by (simp add: settleAll_map)
next
  assume b: "pB \<in> set (sched (map fileName (filter (\<lambda>d. \<not> isUntitled d) (textDocuments w))))"
  show "documentToConfigMap (snd (rebuildConfigMap parse sched w)) pB
          = Some (normalizeIndentSize config)"
    using b assms(2) by (simp add: rebuild_map)
  show "ParseSettled pB True \<in> set (trace (snd (rebuildConfigMap parse sched w)))"
    using b assms(2) by (auto simp: rebuild_trace)
  show "documentToConfigMap (snd (rebuildConfigMap parse sched w)) pA = None"
    using assms(1) by (simp add: rebuild_map)
next
  assume c: "documentToConfigMap w' pA = None \<and> fileName doc = pA"
  show "getSettingsForDocument w' doc = None"
    using c by (simp add: getSettingsForDocument_def)
  show "applyOnSaveTransformations w' h = w'" if "documentOf w' h = Some doc"
    using that c by (simp add: applyOnSave_without_config)
  show "applyEditorConfigToTextEditor w' = w'"
    if "activeEditor w' = Some (i, ed) \<and> documentOf w' (document ed) = Some doc"
    using that c by (simp add: applyEditorConfig_without_config)
qed

theorem resolution_failure_is_isolated_witness:
  "(\<lambda>p. if p = ''/w/b.txt'' then Inr [(''indent_size'', JStr ''tab''), (''tab_width'', JNum (Fin 8))]
         else Inl ResolutionFailed) ''/w/a.txt'' = Inl ResolutionFailed
   \<and> (\<lambda>p. if p = ''/w/b.txt'' then Inr [(''indent_size'', JStr ''tab''), (''tab_width'', JNum (Fin 8))]
         else Inl ResolutionFailed) ''/w/b.txt''
       = Inr [(''indent_size'', JStr ''tab''), (''tab_width'', JNum (Fin 8))]
   \<and> ''/w/b.txt'' \<in> set (rev (map fileName (filter (\<lambda>d. \<not> isUntitled d)
         [\<lparr>fileName = ''/w/a.txt'', isUntitled = False, lines = [[0x61, 0x20]]\<rparr>,
          \<lparr>fileName = ''/w/b.txt'', isUntitled = False, lines = [[0x62]]\<rparr>])))
   \<and> map_option (\<lambda>stored. getProp stored ''indent_size'')
        (documentToConfigMap
          (snd (rebuildConfigMap
            (\<lambda>p. if p = ''/w/b.txt''
                  then Inr [(''indent_size'', JStr ''tab''), (''tab_width'', JNum (Fin 8))]
                  else Inl ResolutionFailed) rev
            \<lparr>documentToConfigMap = Map.empty,
             defaultSettings = \<lparr>tabSize = JNum (Fin 4), insertSpaces = JBool True\<rparr>,
             textDocuments =
               [\<lparr>fileName = ''/w/a.txt'', isUntitled = False, lines = [[0x61, 0x20]]\<rparr>,
                \<lparr>fileName = ''/w/b.txt'', isUntitled = False, lines = [[0x62]]\<rparr>],
             visibleTextEditors =
               [\<lparr>document = 0, options = \<lparr>tabSize = JNum (Fin 4), insertSpaces = JBool True\<rparr>\<rparr>],
             activeTextEditor = Some 0, filesTrimTrailingWhitespace = JBool False,
             statusBarMessage = None, trace = []\<rparr>)) ''/w/b.txt'')
       = Some (JNum (Fin 8))
   \<and> documentToConfigMap
          (snd (rebuildConfigMap
            (\<lambda>p. if p = ''/w/b.txt''
                  then Inr [(''indent_size'', JStr ''tab''), (''tab_width'', JNum (Fin 8))]
                  else Inl ResolutionFailed) rev
            \<lparr>documentToConfigMap = Map.empty,
             defaultSettings = \<lparr>tabSize = JNum (Fin 4), insertSpaces = JBool True\<rparr>,
             textDocuments =
               [\<lparr>fileName = ''/w/a.txt'', isUntitled = False, lines = [[0x61, 0x20]]\<rparr>,
                \<lparr>fileName = ''/w/b.txt'', isUntitled = False, lines = [[0x62]]\<rparr>],
             visibleTextEditors =
               [\<lparr>document = 0, options = \<lparr>tabSize = JNum (Fin 4), insertSpaces = JBool True\<rparr>\<rparr>],
             activeTextEditor = Some 0, filesTrimTrailingWhitespace = JBool False,
             statusBarMessage = None, trace = []\<rparr>)) ''/w/a.txt''
       = None
   \<and> trace
          (snd (rebuildConfigMap
            (\<lambda>p. if p = ''/w/b.txt''
                  then Inr [(''indent_size'', JStr ''tab''), (''tab_width'', JNum (Fin 8))]
                  else Inl ResolutionFailed) rev
            \<lparr>documentToConfigMap = Map.empty,
             defaultSettings = \<lparr>tabSize = JNum (Fin 4), insertSpaces = JBool True\<rparr>,
             textDocuments =
               [\<lparr>fileName = ''/w/a.txt'', isUntitled = False, lines = [[0x61, 0x20]]\<rparr>,
                \<lparr>fileName = ''/w/b.txt'', isUntitled = False, lines = [[0x62]]\<rparr>],
             visibleTextEditors =
               [\<lparr>document = 0, options = \<lparr>tabSize = JNum (Fin 4), insertSpaces = JBool True\<rparr>\<rparr>],
             activeTextEditor = Some 0, filesTrimTrailingWhitespace = JBool False,
             statusBarMessage = None, trace = []\<rparr>))
       = [MapCleared, ParseRequested ''/w/a.txt'', ParseRequested ''/w/b.txt'',
          ParseSettled ''/w/b.txt'' True, ParseSettled ''/w/a.txt'' False]
   \<and> documentOf
          (snd (rebuildConfigMap
            (\<lambda>p. if p = ''/w/b.txt''
                  then Inr [(''indent_size'', JStr ''tab''), (''tab_width'', JNum (Fin 8))]
                  else Inl ResolutionFailed) rev
            \<lparr>documentToConfigMap = Map.empty,
             defaultSettings = \<lparr>tabSize = JNum (Fin 4), insertSpaces = JBool True\<rparr>,
             textDocuments =
               [\<lparr>fileName = ''/w/a.txt'', isUntitled = False, lines = [[0x61, 0x20]]\<rparr>,
                \<lparr>fileName = ''/w/b.txt'', isUntitled = False, lines = [[0x62]]\<rparr>],
             visibleTextEditors =
               [\<lparr>document = 0, options = \<lparr>tabSize = JNum (Fin 4), insertSpaces = JBool True\<rparr>\<rparr>],
             activeTextEditor = Some 0, filesTrimTrailingWhitespace = JBool False,
             statusBarMessage = None, trace = []\<rparr>)) 0
       = Some \<lparr>fileName = ''/w/a.txt'', isUntitled = False, lines = [[0x61, 0x20]]\<rparr>
   \<and> applyOnSaveTransformations
          (snd (rebuildConfigMap
            (\<lambda>p. if p = ''/w/b.txt''
                  then Inr [(''indent_size'', JStr ''tab''), (''tab_width'', JNum (Fin 8))]
                  else Inl ResolutionFailed) rev
            \<lparr>documentToConfigMap = Map.empty,
             defaultSettings = \<lparr>tabSize = JNum (Fin 4), insertSpaces = JBool True\<rparr>,
             textDocuments =
               [\<lparr>fileName = ''/w/a.txt'', isUntitled = False, lines = [[0x61, 0x20]]\<rparr>,
                \<lparr>fileName = ''/w/b.txt'', isUntitled = False, lines = [[0x62]]\<rparr>],
             visibleTextEditors =
               [\<lparr>document = 0, options = \<lparr>tabSize = JNum (Fin 4), insertSpaces = JBool True\<rparr>\<rparr>],
             activeTextEditor = Some 0, filesTrimTrailingWhitespace = JBool False,
             statusBarMessage = None, trace = []\<rparr>)) 0
       = (snd (rebuildConfigMap
            (\<lambda>p. if p = ''/w/b.txt''
                  then Inr [(''indent_size'', JStr ''tab''), (''tab_width'', JNum (Fin 8))]
                  else Inl ResolutionFailed) rev
            \<lparr>documentToConfigMap = Map.empty,
             defaultSettings = \<lparr>tabSize = JNum (Fin 4), insertSpaces = JBool True\<rparr>,
             textDocuments =
               [\<lparr>fileName = ''/w/a.txt'', isUntitled = False, lines = [[0x61, 0x20]]\<rparr>,
                \<lparr>fileName = ''/w/b.txt'', isUntitled = False, lines = [[0x62]]\<rparr>],
             visibleTextEditors =
               [\<lparr>document = 0, options = \<lparr>tabSize = JNum (Fin 4), insertSpaces = JBool True\<rparr>\<rparr>],
             activeTextEditor = Some 0, filesTrimTrailingWhitespace = JBool False,
             statusBarMessage = None, trace = []\<rparr>))"
  (is "?P ''/w/a.txt'' = _ \<and> _ \<and> _ \<and> map_option _ (documentToConfigMap (snd (rebuildConfigMap ?P rev ?W)) _) = _
       \<and> _ \<and> _ \<and> _ \<and> _")
proof -
  let ?A = "\<lparr>fileName = ''/w/a.txt'', isUntitled = False, lines = [[0x61, 0x20]]\<rparr>"
  let ?R = "snd (rebuildConfigMap ?P rev ?W)"
  have tr: "trace ?R =
      [MapCleared, ParseRequested ''/w/a.txt'', ParseRequested ''/w/b.txt'',
       ParseSettled ''/w/b.txt'' True, ParseSettled ''/w/a.txt'' False]"
    by code_simp
  have da: "documentOf ?R 0 = Some ?A" by code_simp
  note isolated = resolution_failure_is_isolated
      [where parse = ?P and pA = "''/w/a.txt''" and pB = "''/w/b.txt''" and err = ResolutionFailed
         and config = "[(''indent_size'', JStr ''tab''), (''tab_width'', JNum (Fin 8))]"
         and sched = rev and w = ?W and ps = "[]" and w' = ?R and doc = ?A and h = 0]
  have rebuilt: "documentToConfigMap ?R ''/w/b.txt''
                   = Some (normalizeIndentSize [(''indent_size'', JStr ''tab''), (''tab_width'', JNum (Fin 8))])"
    and absent: "documentToConfigMap ?R ''/w/a.txt'' = None"
    using isolated by simp_all
  have noop: "applyOnSaveTransformations ?R 0 = ?R"
    using isolated absent da by simp
  show ?thesis
    using rebuilt absent tr da noop
    by (simp add: normalizeIndentSize_def getProp_def setProp_def)
qed

end
